theory Spec2Isabelle
  imports Complex_Main
begin

section \<open>The spaCy service's job pipeline: broker, job store, queue, worker\<close>

text \<open>
  The development embeds the asynchronous job pipeline of the spaCy service:
  \<^verbatim>\<open>models/job.py\<close>, \<^verbatim>\<open>models/document.py\<close>, \<^verbatim>\<open>services/redis_service.py\<close>,
  \<^verbatim>\<open>workers/redis_consumer.py\<close> and the job endpoints of \<^verbatim>\<open>app.py\<close>.

  Conventions of the embedding.
  \<^item> JSON text is represented by the value it denotes: \<^verbatim>\<open>json.dumps\<close> turns a value
    into the text \<open>JsonText v\<close> and \<^verbatim>\<open>json.loads\<close> gives \<open>v\<close> back. A dictionary that is
    handed to the Redis client as it is, without \<^verbatim>\<open>json.dumps\<close>, is the argument
    \<open>PyDict d\<close>: the client cannot encode it and raises before anything is sent.
  \<^item> A Python exception is a value of type \<open>exn\<close>; a function that may raise returns
    \<open>exn + 'a\<close>, with \<open>Inl\<close> for the raised exception.
  \<^item> The broker is a key space with a clock (seconds) and a fault schedule: every call
    of the client consumes the head of the schedule, and \<open>True\<close> there makes that call
    raise a connection error. An empty schedule means that no further call fails.
  \<^item> \<^verbatim>\<open>uuid.uuid4()\<close> is the argument \<open>job_id\<close> of the submission, the analyzer
    (\<^verbatim>\<open>NLPProcessor.process_document\<close>) and the configured model name are arguments
    of the worker. Calls of the logger are not modelled.
\<close>

subsection \<open>JSON values and Python dictionaries\<close>

datatype json =
    JNull
  | JBool bool
  | JInt int
  | JFloat real
  | JStr string
  | JTime nat
  | JArr "json list"
  | JObj "(string \<times> json) list"

type_synonym dict = "(string \<times> json) list"

text \<open>Python's truth value of an object, as tested by \<^verbatim>\<open>if x:\<close> and \<^verbatim>\<open>if not x:\<close>.\<close>

fun truthy :: "json \<Rightarrow> bool" where
  "truthy JNull = False"
| "truthy (JBool b) = b"
| "truthy (JInt i) = (i \<noteq> 0)"
| "truthy (JFloat r) = (r \<noteq> 0)"
| "truthy (JStr s) = (s \<noteq> [])"
| "truthy (JTime t) = True"
| "truthy (JArr xs) = (xs \<noteq> [])"
| "truthy (JObj d) = (d \<noteq> [])"

text \<open>\<^verbatim>\<open>d.get(k)\<close>: the value under \<open>k\<close>, or \<^verbatim>\<open>None\<close>.\<close>

definition dict_get :: "dict \<Rightarrow> string \<Rightarrow> json" where
  "dict_get d k = (case map_of d k of None \<Rightarrow> JNull | Some v \<Rightarrow> v)"

text \<open>\<^verbatim>\<open>d[k] = v\<close>: an existing key keeps its place, a new key goes last.\<close>

fun dict_set :: "dict \<Rightarrow> string \<Rightarrow> json \<Rightarrow> dict" where
  "dict_set [] k v = [(k, v)]"
| "dict_set ((k', v') # d) k v = (if k' = k then (k, v) # d else (k', v') # dict_set d k v)"

text \<open>\<^verbatim>\<open>{**d, **e}\<close>: the entries of \<open>e\<close> are written into \<open>d\<close> in order.\<close>

fun dict_merge :: "dict \<Rightarrow> dict \<Rightarrow> dict" where
  "dict_merge d [] = d"
| "dict_merge d ((k, v) # e) = dict_merge (dict_set d k v) e"

subsection \<open>Exceptions\<close>

datatype exn =
    RedisError string
  | DataError string
  | ValueError string
  | TypeError string
  | AttributeError string
  | ValidationError string
  | AnalyzerError string
  | HTTPException nat string

text \<open>
  \<^verbatim>\<open>str(e)\<close>. How the web framework renders an \<^verbatim>\<open>HTTPException\<close> as a string is
  its own business; the detail is taken here, and nothing below depends on it.
\<close>

fun str_exn :: "exn \<Rightarrow> string" where
  "str_exn (RedisError m) = m"
| "str_exn (DataError m) = m"
| "str_exn (ValueError m) = m"
| "str_exn (TypeError m) = m"
| "str_exn (AttributeError m) = m"
| "str_exn (ValidationError m) = m"
| "str_exn (AnalyzerError m) = m"
| "str_exn (HTTPException c m) = m"

fun status_code :: "exn \<Rightarrow> nat option" where
  "status_code (HTTPException c m) = Some c"
| "status_code _ = None"

subsection \<open>config.py\<close>

definition SERVICE_VERSION :: string where
  "SERVICE_VERSION = ''1.0.0''"

definition NLP_QUEUE :: string where
  "NLP_QUEUE = ''nlp:processing:queue''"

definition NLP_RESULTS_QUEUE :: string where
  "NLP_RESULTS_QUEUE = ''nlp:results:queue''"

subsection \<open>models/document.py and models/job.py\<close>

record Document =
  doc_id :: string
  doc_content :: string
  doc_metadata :: "dict option"
  doc_created_at :: nat

datatype JobStatus = PENDING | PROCESSING | COMPLETED | FAILED | CANCELLED

fun JobStatus_value :: "JobStatus \<Rightarrow> string" where
  "JobStatus_value PENDING = ''pending''"
| "JobStatus_value PROCESSING = ''processing''"
| "JobStatus_value COMPLETED = ''completed''"
| "JobStatus_value FAILED = ''failed''"
| "JobStatus_value CANCELLED = ''cancelled''"

definition JobStatus_of_value :: "string \<Rightarrow> JobStatus option" where
  "JobStatus_of_value s =
     (if s = ''pending'' then Some PENDING
      else if s = ''processing'' then Some PROCESSING
      else if s = ''completed'' then Some COMPLETED
      else if s = ''failed'' then Some FAILED
      else if s = ''cancelled'' then Some CANCELLED
      else None)"

record ProcessingJob =
  pj_id :: string
  pj_document_id :: string
  pj_status :: JobStatus
  pj_created_at :: nat
  pj_started_at :: "nat option"
  pj_completed_at :: "nat option"
  pj_error_message :: "string option"
  pj_progress :: real
  pj_metadata :: "dict option"

definition start_processing :: "nat \<Rightarrow> ProcessingJob \<Rightarrow> ProcessingJob" where
  "start_processing utcnow job = job\<lparr>pj_status := PROCESSING, pj_started_at := Some utcnow\<rparr>"

definition complete_processing :: "nat \<Rightarrow> ProcessingJob \<Rightarrow> ProcessingJob" where
  "complete_processing utcnow job =
     job\<lparr>pj_status := COMPLETED, pj_completed_at := Some utcnow, pj_progress := 100\<rparr>"

definition fail_processing :: "nat \<Rightarrow> string \<Rightarrow> ProcessingJob \<Rightarrow> ProcessingJob" where
  "fail_processing utcnow error job =
     job\<lparr>pj_status := FAILED, pj_completed_at := Some utcnow, pj_error_message := Some error\<rparr>"

text \<open>\<^verbatim>\<open>.dict()\<close> of the two models, field by field in declaration order.\<close>

definition opt_dict_json :: "dict option \<Rightarrow> json" where
  "opt_dict_json m = (case m of None \<Rightarrow> JNull | Some d \<Rightarrow> JObj d)"

definition opt_time_json :: "nat option \<Rightarrow> json" where
  "opt_time_json t = (case t of None \<Rightarrow> JNull | Some n \<Rightarrow> JTime n)"

definition opt_str_json :: "string option \<Rightarrow> json" where
  "opt_str_json s = (case s of None \<Rightarrow> JNull | Some x \<Rightarrow> JStr x)"

definition Document_dict :: "Document \<Rightarrow> dict" where
  "Document_dict document =
     [(''id'', JStr (doc_id document)),
      (''content'', JStr (doc_content document)),
      (''metadata'', opt_dict_json (doc_metadata document)),
      (''created_at'', JTime (doc_created_at document))]"

definition ProcessingJob_dict :: "ProcessingJob \<Rightarrow> dict" where
  "ProcessingJob_dict job =
     [(''id'', JStr (pj_id job)),
      (''document_id'', JStr (pj_document_id job)),
      (''status'', JStr (JobStatus_value (pj_status job))),
      (''created_at'', JTime (pj_created_at job)),
      (''started_at'', opt_time_json (pj_started_at job)),
      (''completed_at'', opt_time_json (pj_completed_at job)),
      (''error_message'', opt_str_json (pj_error_message job)),
      (''progress'', JFloat (pj_progress job)),
      (''metadata'', opt_dict_json (pj_metadata job))]"

text \<open>
  Construction of a model from keyword arguments (\<^verbatim>\<open>Document(**d)\<close>,
  \<^verbatim>\<open>ProcessingJob(**d)\<close>): every declared field is read with its declared type and
  default, an absent required field or a value of the wrong type is a validation error,
  and unknown keys are ignored. Each reader returns \<open>None\<close> for an invalid value.
\<close>

definition req_str :: "dict \<Rightarrow> string \<Rightarrow> string option" where
  "req_str d k = (case map_of d k of Some (JStr s) \<Rightarrow> Some s | _ \<Rightarrow> None)"

definition field_time :: "nat \<Rightarrow> dict \<Rightarrow> string \<Rightarrow> nat option" where
  "field_time utcnow d k =
     (case map_of d k of None \<Rightarrow> Some utcnow | Some (JTime t) \<Rightarrow> Some t | _ \<Rightarrow> None)"

definition field_opt_time :: "dict \<Rightarrow> string \<Rightarrow> nat option option" where
  "field_opt_time d k =
     (case map_of d k of None \<Rightarrow> Some None | Some JNull \<Rightarrow> Some None
      | Some (JTime t) \<Rightarrow> Some (Some t) | _ \<Rightarrow> None)"

definition field_opt_str :: "dict \<Rightarrow> string \<Rightarrow> string option option" where
  "field_opt_str d k =
     (case map_of d k of None \<Rightarrow> Some None | Some JNull \<Rightarrow> Some None
      | Some (JStr s) \<Rightarrow> Some (Some s) | _ \<Rightarrow> None)"

definition field_opt_dict :: "dict \<Rightarrow> string \<Rightarrow> dict option option" where
  "field_opt_dict d k =
     (case map_of d k of None \<Rightarrow> Some (Some []) | Some JNull \<Rightarrow> Some None
      | Some (JObj m) \<Rightarrow> Some (Some m) | _ \<Rightarrow> None)"

definition field_status :: "dict \<Rightarrow> string \<Rightarrow> JobStatus option" where
  "field_status d k =
     (case map_of d k of None \<Rightarrow> Some PENDING | Some (JStr s) \<Rightarrow> JobStatus_of_value s
      | _ \<Rightarrow> None)"

definition field_float :: "dict \<Rightarrow> string \<Rightarrow> real option" where
  "field_float d k =
     (case map_of d k of None \<Rightarrow> Some 0 | Some (JFloat r) \<Rightarrow> Some r
      | Some (JInt i) \<Rightarrow> Some (real_of_int i) | _ \<Rightarrow> None)"

definition Document_of :: "nat \<Rightarrow> json \<Rightarrow> exn + Document" where
  "Document_of utcnow data =
     (case data of
        JObj d \<Rightarrow>
          (case (req_str d ''id'', req_str d ''content'',
                 field_opt_dict d ''metadata'', field_time utcnow d ''created_at'') of
             (Some i, Some c, Some m, Some t) \<Rightarrow>
               Inr \<lparr>doc_id = i, doc_content = c, doc_metadata = m, doc_created_at = t\<rparr>
           | _ \<Rightarrow> Inl (ValidationError ''validation error for Document''))
      | _ \<Rightarrow> Inl (TypeError ''argument after ** must be a mapping''))"

definition ProcessingJob_of :: "nat \<Rightarrow> json \<Rightarrow> exn + ProcessingJob" where
  "ProcessingJob_of utcnow data =
     (case data of
        JObj d \<Rightarrow>
          (case (req_str d ''id'', req_str d ''document_id'', field_status d ''status'',
                 field_time utcnow d ''created_at'', field_opt_time d ''started_at'',
                 field_opt_time d ''completed_at'', field_opt_str d ''error_message'',
                 field_float d ''progress'', field_opt_dict d ''metadata'') of
             (Some i, Some di, Some s, Some c, Some st, Some ct, Some e, Some p, Some m) \<Rightarrow>
               Inr \<lparr>pj_id = i, pj_document_id = di, pj_status = s, pj_created_at = c,
                    pj_started_at = st, pj_completed_at = ct, pj_error_message = e,
                    pj_progress = p, pj_metadata = m\<rparr>
           | _ \<Rightarrow> Inl (ValidationError ''validation error for ProcessingJob''))
      | _ \<Rightarrow> Inl (TypeError ''argument after ** must be a mapping''))"

subsection \<open>The broker\<close>

text \<open>
  The key space of the Redis server, as far as the service uses it: a key holds a string
  with the time at which it expires (\<^verbatim>\<open>SETEX\<close>), or a list. \<^verbatim>\<open>LPUSH\<close> inserts at the
  head of the list and returns the new length; \<^verbatim>\<open>BRPOP\<close> removes the last element,
  and on an empty or absent list waits for the timeout and returns nothing; a command on
  a key of the wrong kind is an error; a list that becomes empty is removed.
\<close>

datatype rval = RString json nat | RList "json list"

record world =
  keyspace :: "string \<Rightarrow> rval option"
  now :: nat
  faults :: "bool list"

definition next_fault :: "world \<Rightarrow> bool \<times> world" where
  "next_fault w = (case faults w of [] \<Rightarrow> (False, w) | f # fs \<Rightarrow> (f, w\<lparr>faults := fs\<rparr>))"

definition live :: "world \<Rightarrow> string \<Rightarrow> rval option" where
  "live w name =
     (case keyspace w name of
        Some (RString v t) \<Rightarrow> if t \<le> now w then None else Some (RString v t)
      | r \<Rightarrow> r)"

definition connection_error :: exn where
  "connection_error = RedisError ''Error connecting to Redis''"

definition wrongtype :: exn where
  "wrongtype = RedisError ''WRONGTYPE Operation against a key holding the wrong kind of value''"

definition lpush :: "string \<Rightarrow> json \<Rightarrow> world \<Rightarrow> (exn + nat) \<times> world" where
  "lpush name v w =
     (case next_fault w of
        (True, w') \<Rightarrow> (Inl connection_error, w')
      | (False, w') \<Rightarrow>
          (case live w' name of
             None \<Rightarrow> (Inr 1, w'\<lparr>keyspace := (keyspace w')(name \<mapsto> RList [v])\<rparr>)
           | Some (RList xs) \<Rightarrow>
               (Inr (Suc (length xs)), w'\<lparr>keyspace := (keyspace w')(name \<mapsto> RList (v # xs))\<rparr>)
           | Some (RString s t) \<Rightarrow> (Inl wrongtype, w')))"

definition brpop :: "string \<Rightarrow> nat \<Rightarrow> world \<Rightarrow> (exn + (string \<times> json) option) \<times> world" where
  "brpop name timeout w =
     (case next_fault w of
        (True, w') \<Rightarrow> (Inl connection_error, w')
      | (False, w') \<Rightarrow>
          (case live w' name of
             None \<Rightarrow> (Inr None, w'\<lparr>now := now w' + timeout\<rparr>)
           | Some (RList xs) \<Rightarrow>
               (if xs = [] then (Inr None, w'\<lparr>now := now w' + timeout\<rparr>)
                else (Inr (Some (name, last xs)),
                      w'\<lparr>keyspace := (keyspace w')(name :=
                            (if butlast xs = [] then None else Some (RList (butlast xs))))\<rparr>))
           | Some (RString s t) \<Rightarrow> (Inl wrongtype, w')))"

definition setex :: "string \<Rightarrow> nat \<Rightarrow> json \<Rightarrow> world \<Rightarrow> (exn + bool) \<times> world" where
  "setex name ttl v w =
     (case next_fault w of
        (True, w') \<Rightarrow> (Inl connection_error, w')
      | (False, w') \<Rightarrow>
          (Inr True, w'\<lparr>keyspace := (keyspace w')(name \<mapsto> RString v (now w' + ttl))\<rparr>))"

definition get :: "string \<Rightarrow> world \<Rightarrow> (exn + json option) \<times> world" where
  "get name w =
     (case next_fault w of
        (True, w') \<Rightarrow> (Inl connection_error, w')
      | (False, w') \<Rightarrow>
          (case live w' name of
             None \<Rightarrow> (Inr None, w')
           | Some (RString v t) \<Rightarrow> (Inr (Some v), w')
           | Some (RList xs) \<Rightarrow> (Inl wrongtype, w')))"

definition delete :: "string \<Rightarrow> world \<Rightarrow> (exn + nat) \<times> world" where
  "delete name w =
     (case next_fault w of
        (True, w') \<Rightarrow> (Inl connection_error, w')
      | (False, w') \<Rightarrow>
          (Inr (if live w' name = None then 0 else 1),
           w'\<lparr>keyspace := (keyspace w')(name := None)\<rparr>))"

definition llen :: "string \<Rightarrow> world \<Rightarrow> (exn + nat) \<times> world" where
  "llen name w =
     (case next_fault w of
        (True, w') \<Rightarrow> (Inl connection_error, w')
      | (False, w') \<Rightarrow>
          (case live w' name of
             None \<Rightarrow> (Inr 0, w')
           | Some (RList xs) \<Rightarrow> (Inr (length xs), w')
           | Some (RString s t) \<Rightarrow> (Inl wrongtype, w')))"

subsection \<open>The Redis client\<close>

text \<open>
  What the code hands to \<^verbatim>\<open>redis_client.lpush\<close> and \<^verbatim>\<open>redis_client.setex\<close> as a value:
  the text that \<^verbatim>\<open>json.dumps\<close> returned, or a Python dictionary. The client encodes
  bytes, strings and numbers only; for a dictionary it raises \<^verbatim>\<open>DataError\<close> (its message
  is written here without its quotation marks) before the command reaches the server, so
  the broker's state and its fault schedule are as they were.
\<close>

datatype redis_value = JsonText json | PyDict dict

definition data_error :: exn where
  "data_error =
     DataError ''Invalid input of type: dict. Convert to a bytes, string, int or float first.''"

definition encode :: "redis_value \<Rightarrow> exn + json" where
  "encode value = (case value of JsonText v \<Rightarrow> Inr v | PyDict d \<Rightarrow> Inl data_error)"

definition redis_client_lpush :: "string \<Rightarrow> redis_value \<Rightarrow> world \<Rightarrow> (exn + nat) \<times> world" where
  "redis_client_lpush name value w =
     (case encode value of Inl e \<Rightarrow> (Inl e, w) | Inr v \<Rightarrow> lpush name v w)"

definition redis_client_setex ::
  "string \<Rightarrow> nat \<Rightarrow> redis_value \<Rightarrow> world \<Rightarrow> (exn + bool) \<times> world" where
  "redis_client_setex name ttl value w =
     (case encode value of Inl e \<Rightarrow> (Inl e, w) | Inr v \<Rightarrow> setex name ttl v w)"

subsection \<open>services/redis\_service.py\<close>

definition job_key :: "string \<Rightarrow> string" where
  "job_key job_id = ''nlp:job:'' @ job_id"

definition result_message :: "string \<Rightarrow> dict \<Rightarrow> dict" where
  "result_message job_id result =
     [(''job_id'', JStr job_id),
      (''result'', JObj result),
      (''timestamp'', dict_get result ''processed_at'')]"

definition publish_job_result :: "string \<Rightarrow> dict \<Rightarrow> world \<Rightarrow> bool \<times> world" where
  "publish_job_result job_id result w =
     (let message = result_message job_id result
      in case redis_client_lpush NLP_RESULTS_QUEUE (JsonText (JObj message)) w of
           (Inr n, w') \<Rightarrow> (True, w')
         | (Inl e, w') \<Rightarrow> (False, w'))"

definition get_processing_job :: "world \<Rightarrow> json option \<times> world" where
  "get_processing_job w =
     (case brpop NLP_QUEUE 30 w of
        (Inr (Some (queue_name, message)), w') \<Rightarrow> (Some message, w')
      | (Inr None, w') \<Rightarrow> (None, w')
      | (Inl e, w') \<Rightarrow> (None, w'))"

definition status_data :: "string \<Rightarrow> real \<Rightarrow> string option \<Rightarrow> dict" where
  "status_data status progress error =
     (let job_data = [(''status'', JStr status),
                      (''progress'', JFloat progress),
                      (''updated_at'', JNull)]
      in case error of
           None \<Rightarrow> job_data
         | Some m \<Rightarrow> if m \<noteq> [] then dict_set job_data ''error'' (JStr m) else job_data)"

definition update_job_status :: "string \<Rightarrow> string \<Rightarrow> real \<Rightarrow> string option \<Rightarrow> world \<Rightarrow> world" where
  "update_job_status job_id status progress error w =
     (let job_data = status_data status progress error
      in snd (redis_client_setex (job_key job_id) 3600 (JsonText (JObj job_data)) w))"

definition get_job_status :: "string \<Rightarrow> world \<Rightarrow> json option \<times> world" where
  "get_job_status job_id w =
     (case get (job_key job_id) w of
        (Inr (Some job_data), w') \<Rightarrow> (Some job_data, w')
      | (Inr None, w') \<Rightarrow> (None, w')
      | (Inl e, w') \<Rightarrow> (None, w'))"

definition get_queue_length :: "string \<Rightarrow> world \<Rightarrow> nat \<times> world" where
  "get_queue_length queue_name w =
     (case llen queue_name w of
        (Inr n, w') \<Rightarrow> (n, w')
      | (Inl e, w') \<Rightarrow> (0, w'))"

definition clear_queue :: "string \<Rightarrow> world \<Rightarrow> bool \<times> world" where
  "clear_queue queue_name w =
     (case delete queue_name w of
        (Inr n, w') \<Rightarrow> (True, w')
      | (Inl e, w') \<Rightarrow> (False, w'))"

subsection \<open>workers/redis\_consumer.py\<close>

record RedisConsumer =
  running :: bool
  processed_count :: nat

text \<open>
  \<^verbatim>\<open>ProcessedDocument(...).dict()\<close>; \<open>analysis\<close> is the analysis that the analyzer
  returned, as a dictionary.
\<close>

definition ProcessedDocument_dict :: "Document \<Rightarrow> dict \<Rightarrow> nat \<Rightarrow> string \<Rightarrow> string \<Rightarrow> dict" where
  "ProcessedDocument_dict document analysis processed_at processing_version model_used =
     [(''document'', JObj (Document_dict document)),
      (''analysis'', JObj analysis),
      (''processed_at'', JTime processed_at),
      (''processing_version'', JStr processing_version),
      (''model_used'', JStr model_used)]"

definition completed_result :: "ProcessingJob \<Rightarrow> Document \<Rightarrow> dict \<Rightarrow> nat \<Rightarrow> dict" where
  "completed_result job document processed_doc utcnow =
     [(''job_id'', JStr (pj_id job)),
      (''document_id'', JStr (doc_id document)),
      (''processed_document'', JObj processed_doc),
      (''status'', JStr ''completed''),
      (''processed_at'', JTime utcnow)]"

definition failed_result :: "ProcessingJob \<Rightarrow> string \<Rightarrow> nat \<Rightarrow> dict" where
  "failed_result job error_msg utcnow =
     [(''job_id'', JStr (pj_id job)),
      (''document_id'', JStr (pj_document_id job)),
      (''status'', JStr ''failed''),
      (''error'', JStr error_msg),
      (''processed_at'', JTime utcnow)]"

text \<open>
  The body of the inner \<^verbatim>\<open>try\<close> of \<^verbatim>\<open>_process_next_job\<close>: it returns the consumer
  with its counter, or the exception that the handler below turns into a failed job.
  Reading \<^verbatim>\<open>job.metadata.get\<close> on a metadata of \<^verbatim>\<open>None\<close> raises an attribute error,
  whose message is written here without its quotation marks. The analyzer is a function
  of the document: the time it takes is not modelled.
\<close>

definition process_job_body ::
  "(Document \<Rightarrow> exn + dict) \<Rightarrow> string \<Rightarrow> ProcessingJob \<Rightarrow> RedisConsumer \<Rightarrow> world
     \<Rightarrow> (exn + RedisConsumer) \<times> world" where
  "process_job_body process_document SPACY_MODEL job c w =
     (case pj_metadata job of
        None \<Rightarrow> (Inl (AttributeError ''NoneType object has no attribute get''), w)
      | Some metadata \<Rightarrow>
          (let document_data = dict_get metadata ''document'' in
           if \<not> truthy document_data then (Inl (ValueError ''No document data in job''), w)
           else
             (case Document_of (now w) document_data of
                Inl e \<Rightarrow> (Inl e, w)
              | Inr document \<Rightarrow>
                  (case process_document document of
                     Inl e \<Rightarrow> (Inl e, w)
                   | Inr analysis \<Rightarrow>
                       (let processed_doc =
                              ProcessedDocument_dict document analysis (now w)
                                SERVICE_VERSION SPACY_MODEL;
                            job = complete_processing (now w) job;
                            w1 = update_job_status (pj_id job) (JobStatus_value COMPLETED) 100 None w;
                            result = completed_result job document processed_doc (now w1);
                            (success, w2) = publish_job_result (pj_id job) result w1
                        in if success
                           then (Inr (c\<lparr>processed_count := processed_count c + 1\<rparr>), w2)
                           else (Inr c, w2))))))"

text \<open>The handler of the inner \<^verbatim>\<open>try\<close>: the job fails with the message of the exception.\<close>

definition error_msg_of :: "exn \<Rightarrow> string" where
  "error_msg_of e = ''Failed to process document: '' @ str_exn e"

definition fail_job :: "exn \<Rightarrow> ProcessingJob \<Rightarrow> world \<Rightarrow> world" where
  "fail_job e job w =
     (let error_msg = error_msg_of e;
          job = fail_processing (now w) error_msg job;
          w1 = update_job_status (pj_id job) (JobStatus_value FAILED) 0 (Some error_msg) w;
          result = failed_result job error_msg (now w1)
      in snd (publish_job_result (pj_id job) result w1))"

text \<open>
  \<^verbatim>\<open>_process_next_job\<close>. The outer handler catches every exception, so the result is
  always the consumer; the sum type is kept for the loop, which has a handler of its own.
\<close>

definition process_next_job ::
  "(Document \<Rightarrow> exn + dict) \<Rightarrow> string \<Rightarrow> RedisConsumer \<Rightarrow> world
     \<Rightarrow> (exn + RedisConsumer) \<times> world" where
  "process_next_job process_document SPACY_MODEL c w =
     (case get_processing_job w of
        (None, w1) \<Rightarrow> (Inr c, w1)
      | (Some job_data, w1) \<Rightarrow>
          if \<not> truthy job_data then (Inr c, w1)
          else
            (case ProcessingJob_of (now w1) job_data of
               Inl e \<Rightarrow> (Inr c, w1)
             | Inr job \<Rightarrow>
                 (let job = start_processing (now w1) job;
                      w2 = update_job_status (pj_id job) (JobStatus_value PROCESSING) 0 None w1
                  in case process_job_body process_document SPACY_MODEL job c w2 of
                       (Inr c', w3) \<Rightarrow> (Inr c', w3)
                     | (Inl e, w3) \<Rightarrow> (Inr c, fail_job e job w3))))"

text \<open>
  \<^verbatim>\<open>start\<close>: the loop runs while the flag is set, which only a signal clears; the model
  runs it for a given number of iterations. An exception of an iteration is followed by
  a sleep of five seconds.
\<close>

fun consumer_loop ::
  "nat \<Rightarrow> (Document \<Rightarrow> exn + dict) \<Rightarrow> string \<Rightarrow> RedisConsumer \<Rightarrow> world
     \<Rightarrow> RedisConsumer \<times> world" where
  "consumer_loop 0 process_document SPACY_MODEL c w = (c, w)"
| "consumer_loop (Suc n) process_document SPACY_MODEL c w =
     (if running c
      then (case process_next_job process_document SPACY_MODEL c w of
              (Inr c', w') \<Rightarrow> consumer_loop n process_document SPACY_MODEL c' w'
            | (Inl e, w') \<Rightarrow>
                consumer_loop n process_document SPACY_MODEL c (w'\<lparr>now := now w' + 5\<rparr>))
      else (c, w))"

subsection \<open>app.py: the job endpoints\<close>

text \<open>
  \<^verbatim>\<open>POST /api/v1/jobs/submit\<close>. The endpoint passes \<^verbatim>\<open>job.dict()\<close> to
  \<^verbatim>\<open>redis_client.lpush\<close> as it is, a dictionary and not the text of \<^verbatim>\<open>json.dumps\<close>;
  every exception of the body becomes a 500.
\<close>

definition new_job :: "string \<Rightarrow> Document \<Rightarrow> nat \<Rightarrow> ProcessingJob" where
  "new_job job_id document utcnow =
     \<lparr>pj_id = job_id, pj_document_id = doc_id document, pj_status = PENDING,
      pj_created_at = utcnow, pj_started_at = None, pj_completed_at = None,
      pj_error_message = None, pj_progress = 0,
      pj_metadata = Some [(''document'', JObj (Document_dict document))]\<rparr>"

definition submit_job :: "string \<Rightarrow> Document \<Rightarrow> world \<Rightarrow> (exn + dict) \<times> world" where
  "submit_job job_id document w =
     (let job = new_job job_id document (now w);
          job_data = ProcessingJob_dict job
      in case redis_client_lpush NLP_QUEUE (PyDict job_data) w of
           (Inl e, w1) \<Rightarrow>
             (Inl (HTTPException 500 (''Job submission failed: '' @ str_exn e)), w1)
         | (Inr queue_length, w1) \<Rightarrow>
             (let w2 = update_job_status job_id (JobStatus_value PENDING) 0 None w1
              in (Inr [(''job_id'', JStr job_id),
                       (''document_id'', JStr (doc_id document)),
                       (''status'', JStr (JobStatus_value PENDING)),
                       (''submitted_at'', JTime (now w2)),
                       (''queue_position'', JInt (int queue_length))], w2)))"

text \<open>
  \<^verbatim>\<open>GET /api/v1/jobs/{job_id}\<close>. Unpacking \<^verbatim>\<open>**job_status\<close> needs a mapping; any other
  truthy value raises, which the last handler turns into a 500.
\<close>

definition get_job_status_endpoint :: "string \<Rightarrow> world \<Rightarrow> (exn + dict) \<times> world" where
  "get_job_status_endpoint job_id w =
     (case get_job_status job_id w of
        (None, w') \<Rightarrow> (Inl (HTTPException 404 ''Job not found''), w')
      | (Some job_status, w') \<Rightarrow>
          if \<not> truthy job_status then (Inl (HTTPException 404 ''Job not found''), w')
          else
            (case job_status of
               JObj d \<Rightarrow> (Inr (dict_merge [(''job_id'', JStr job_id)] d), w')
             | _ \<Rightarrow>
                 (Inl (HTTPException 500
                        (''Failed to get job status: '' @
                         str_exn (TypeError ''argument after ** must be a mapping''))), w')))"

definition clear_processing_queue :: "world \<Rightarrow> (exn + dict) \<times> world" where
  "clear_processing_queue w =
     (case clear_queue NLP_QUEUE w of
        (True, w') \<Rightarrow> (Inr [(''message'', JStr ''Processing queue cleared successfully'')], w')
      | (False, w') \<Rightarrow>
          (Inl (HTTPException 500
                 (''Failed to clear queue: '' @
                  str_exn (HTTPException 500 ''Failed to clear queue''))), w'))"

subsection \<open>Observations of the broker's state\<close>

text \<open>The entries of a broker list, head first; a key that holds no list has none.\<close>

definition queue_items :: "world \<Rightarrow> string \<Rightarrow> json list" where
  "queue_items w name = (case live w name of Some (RList xs) \<Rightarrow> xs | _ \<Rightarrow> [])"

text \<open>The status record stored for a job, if there is one that has not expired.\<close>

definition job_record :: "world \<Rightarrow> string \<Rightarrow> json option" where
  "job_record w job_id =
     (case live w (job_key job_id) of Some (RString v t) \<Rightarrow> Some v | _ \<Rightarrow> None)"

text \<open>A key that a list command accepts: absent, expired, or a list.\<close>

definition list_key :: "world \<Rightarrow> string \<Rightarrow> bool" where
  "list_key w name = (case live w name of Some (RString v t) \<Rightarrow> False | _ \<Rightarrow> True)"

text \<open>
  The invariant of a stored status record: progress is 100 exactly when the status is
  completed, and an error message is present exactly when the status is failed.
\<close>

fun record_ok :: "json \<Rightarrow> bool" where
  "record_ok (JObj d) =
     (((map_of d ''progress'' = Some (JFloat 100)) = (map_of d ''status'' = Some (JStr ''completed'')))
      \<and> ((map_of d ''error'' \<noteq> None) = (map_of d ''status'' = Some (JStr ''failed''))))"
| "record_ok _ = False"

text \<open>Every job key whose content differs between two states holds a record that is in order.\<close>

definition written_ok :: "world \<Rightarrow> world \<Rightarrow> bool" where
  "written_ok w w' =
     (\<forall>job_id. keyspace w' (job_key job_id) = keyspace w (job_key job_id)
        \<or> (\<exists>v t. keyspace w' (job_key job_id) = Some (RString v t) \<and> record_ok v))"

definition store_ok :: "world \<Rightarrow> bool" where
  "store_ok w =
     (\<forall>job_id v t. keyspace w (job_key job_id) = Some (RString v t) \<longrightarrow> record_ok v)"

text \<open>A job whose metadata carries no document: no metadata, no such key, or an empty value.\<close>

definition lacks_document :: "ProcessingJob \<Rightarrow> bool" where
  "lacks_document job =
     (case pj_metadata job of None \<Rightarrow> True | Some metadata \<Rightarrow> \<not> truthy (dict_get metadata ''document''))"

text \<open>A sequence of submissions, each with the identifier drawn for it.\<close>

fun submit_all :: "(string \<times> Document) list \<Rightarrow> world \<Rightarrow> world" where
  "submit_all [] w = w"
| "submit_all ((job_id, document) # rest) w = submit_all rest (snd (submit_job job_id document w))"

text \<open>A broker with nothing stored, at time 0, on which no call fails.\<close>

definition empty_world :: world where
  "empty_world = \<lparr>keyspace = Map.empty, now = 0, faults = []\<rparr>"

definition doc1 :: Document where
  "doc1 = \<lparr>doc_id = ''d1'', doc_content = ''Apple Inc. was founded in 1976.'',
           doc_metadata = Some [], doc_created_at = 0\<rparr>"

definition doc2 :: Document where
  "doc2 = \<lparr>doc_id = ''d2'', doc_content = ''Second document.'',
           doc_metadata = Some [], doc_created_at = 0\<rparr>"

definition idle_consumer :: RedisConsumer where
  "idle_consumer = \<lparr>running = True, processed_count = 0\<rparr>"

text \<open>A queue entry that names a job and a document but carries no metadata.\<close>

definition bare_job_data :: json where
  "bare_job_data = JObj [(''id'', JStr ''j0''), (''document_id'', JStr ''d0'')]"

definition bare_job :: ProcessingJob where
  "bare_job = \<lparr>pj_id = ''j0'', pj_document_id = ''d0'', pj_status = PENDING,
      pj_created_at = 0, pj_started_at = None, pj_completed_at = None,
      pj_error_message = None, pj_progress = 0, pj_metadata = Some []\<rparr>"

text \<open>The empty broker with the given entries on the work queue.\<close>

definition world_with :: "json list \<Rightarrow> world" where
  "world_with q = empty_world\<lparr>keyspace := [NLP_QUEUE \<mapsto> RList q]\<rparr>"

text \<open>The exception that the inner \<^verbatim>\<open>try\<close> raises for a job that carries no document.\<close>

definition missing_document_error :: "ProcessingJob \<Rightarrow> exn" where
  "missing_document_error job =
     (if pj_metadata job = None
      then AttributeError ''NoneType object has no attribute get''
      else ValueError ''No document data in job'')"

text \<open>An analyzer that returns an empty analysis, and the model name of the default configuration.\<close>

definition null_analyzer :: "Document \<Rightarrow> exn + dict" where
  "null_analyzer document = Inr []"

definition default_model :: string where
  "default_model = ''en_core_web_sm''"

text \<open>The job submitted for \<open>doc1\<close> under the identifier j1 at time 0, alone on the queue.\<close>

definition job1 :: ProcessingJob where
  "job1 = new_job ''j1'' doc1 0"

definition job1_world :: world where
  "job1_world = world_with [JObj (ProcessingJob_dict job1)]"

text \<open>The result dictionary that the worker builds when it completes that job at time 0.\<close>

definition envelope1 :: dict where
  "envelope1 =
     completed_result job1 doc1
       (ProcessedDocument_dict doc1 [] 0 SERVICE_VERSION default_model) 0"

text \<open>
  A sequence of pushes of JSON text onto the work queue, with the command that the
  submission issues, and two entries of the form that the worker reads.
\<close>

fun push_all :: "json list \<Rightarrow> world \<Rightarrow> world" where
  "push_all [] w = w"
| "push_all (v # vs) w = push_all vs (snd (redis_client_lpush NLP_QUEUE (JsonText v) w))"

definition entry1 :: json where
  "entry1 = JObj (ProcessingJob_dict (new_job ''j1'' doc1 0))"

definition entry2 :: json where
  "entry2 = JObj (ProcessingJob_dict (new_job ''j2'' doc2 0))"

text \<open>The broker after the worker has written the completed record of j1, with j0 still queued.\<close>

definition served_world :: world where
  "served_world = update_job_status ''j1'' ''completed'' 100 None (world_with [bare_job_data])"

section \<open>Properties\<close>

subsection \<open>The client's encoding\<close>

lemma redis_client_text [simp]:
  "redis_client_lpush name (JsonText v) w = lpush name v w"
  "redis_client_setex name ttl (JsonText v) w = setex name ttl v w"
  by (simp_all add: redis_client_lpush_def redis_client_setex_def encode_def)

lemma redis_client_lpush_dict [simp]:
  "redis_client_lpush name (PyDict d) w = (Inl data_error, w)"
  by (simp add: redis_client_lpush_def encode_def)

subsection \<open>Frame lemmas of the broker\<close>

lemma next_fault_frame:
  "keyspace (snd (next_fault w)) = keyspace w"
  "now (snd (next_fault w)) = now w"
  by (simp_all add: next_fault_def split: list.splits)

lemma live_cong: "keyspace w' = keyspace w \<Longrightarrow> now w' = now w \<Longrightarrow> live w' name = live w name"
  by (simp add: live_def split: option.splits rval.splits)

lemma next_fault_eq:
  "next_fault w = (f, w') \<Longrightarrow>
     keyspace w' = keyspace w \<and> now w' = now w \<and> live w' name = live w name"
  using next_fault_frame [of w] live_cong [of w' w name] by simp

lemma key_distinct:
  "job_key job_id \<noteq> NLP_QUEUE"
  "job_key job_id \<noteq> NLP_RESULTS_QUEUE"
  "NLP_QUEUE \<noteq> NLP_RESULTS_QUEUE"
  "NLP_QUEUE \<noteq> job_key job_id"
  "NLP_RESULTS_QUEUE \<noteq> job_key job_id"
  "NLP_RESULTS_QUEUE \<noteq> NLP_QUEUE"
  by (simp_all add: job_key_def NLP_QUEUE_def NLP_RESULTS_QUEUE_def)

lemma live_key_cong:
  "keyspace w' name = keyspace w name \<Longrightarrow> now w' = now w \<Longrightarrow> live w' name = live w name"
  by (simp add: live_def split: option.splits rval.splits)

lemma live_faults_update [simp]: "live (w\<lparr>faults := fs\<rparr>) name = live w name"
  by (rule live_key_cong) simp_all

lemma live_keyspace_list [simp]:
  "live (w\<lparr>keyspace := (keyspace w)(k \<mapsto> RList xs)\<rparr>) k = Some (RList xs)"
  by (simp add: live_def)

lemma live_keyspace_none [simp]:
  "live (w\<lparr>keyspace := (keyspace w)(k := None)\<rparr>) k = None"
  by (simp add: live_def)

lemma live_keyspace_string [simp]:
  "live (w\<lparr>keyspace := (keyspace w)(k \<mapsto> RString v (now w + Suc n))\<rparr>) k
     = Some (RString v (now w + Suc n))"
  by (simp add: live_def)

lemma next_fault_cons: "faults w = f # fs \<Longrightarrow> next_fault w = (f, w\<lparr>faults := fs\<rparr>)"
  by (simp add: next_fault_def)

lemma next_fault_nil: "faults w = [] \<Longrightarrow> next_fault w = (False, w)"
  by (simp add: next_fault_def)

text \<open>One call under a schedule whose head is known.\<close>

lemma setex_step:
  "faults w = f # fs \<Longrightarrow>
   setex name ttl v w =
     (if f then (Inl connection_error, w\<lparr>faults := fs\<rparr>)
      else (Inr True, w\<lparr>faults := fs, keyspace := (keyspace w)(name \<mapsto> RString v (now w + ttl))\<rparr>))"
  by (simp add: setex_def next_fault_cons)

lemma setex_healthy:
  "faults w = [] \<Longrightarrow>
   setex name ttl v w = (Inr True, w\<lparr>keyspace := (keyspace w)(name \<mapsto> RString v (now w + ttl))\<rparr>)"
  by (simp add: setex_def next_fault_nil)

lemma lpush_step:
  "faults w = f # fs \<Longrightarrow>
   lpush name v w =
     (if f then (Inl connection_error, w\<lparr>faults := fs\<rparr>)
      else if list_key w name
      then (Inr (Suc (length (queue_items w name))),
            w\<lparr>faults := fs, keyspace := (keyspace w)(name \<mapsto> RList (v # queue_items w name))\<rparr>)
      else (Inl wrongtype, w\<lparr>faults := fs\<rparr>))"
  by (simp add: lpush_def next_fault_cons list_key_def queue_items_def
      split: option.splits rval.splits)

lemma lpush_healthy:
  "faults w = [] \<Longrightarrow> list_key w name \<Longrightarrow>
   lpush name v w =
     (Inr (Suc (length (queue_items w name))),
      w\<lparr>keyspace := (keyspace w)(name \<mapsto> RList (v # queue_items w name))\<rparr>)"
  by (simp add: lpush_def next_fault_nil list_key_def queue_items_def
      split: option.splits rval.splits)

lemma brpop_step:
  "faults w = False # fs \<Longrightarrow> queue_items w name = xs @ [x] \<Longrightarrow>
   brpop name t w =
     (Inr (Some (name, x)),
      w\<lparr>faults := fs, keyspace := (keyspace w)(name := (if xs = [] then None else Some (RList xs)))\<rparr>)"
  by (auto simp: brpop_def next_fault_cons queue_items_def
      split: option.splits rval.splits)

lemma brpop_healthy:
  "faults w = [] \<Longrightarrow> queue_items w name = xs @ [x] \<Longrightarrow>
   brpop name t w =
     (Inr (Some (name, x)),
      w\<lparr>keyspace := (keyspace w)(name := (if xs = [] then None else Some (RList xs)))\<rparr>)"
  by (auto simp: brpop_def next_fault_nil queue_items_def
      split: option.splits rval.splits)


lemma queue_items_cong:
  "keyspace w' name = keyspace w name \<Longrightarrow> now w' = now w \<Longrightarrow> queue_items w' name = queue_items w name"
  using live_key_cong [of w' name w] by (simp add: queue_items_def)

lemma list_key_cong:
  "keyspace w' name = keyspace w name \<Longrightarrow> now w' = now w \<Longrightarrow> list_key w' name = list_key w name"
  using live_key_cong [of w' name w] by (simp add: list_key_def)

lemma job_record_cong:
  "keyspace w' (job_key job_id) = keyspace w (job_key job_id) \<Longrightarrow> now w' = now w \<Longrightarrow>
   job_record w' job_id = job_record w job_id"
  using live_key_cong [of w' "job_key job_id" w] by (simp add: job_record_def)

lemma queue_items_faults [simp]: "queue_items (w\<lparr>faults := fs\<rparr>) name = queue_items w name"
  by (simp add: queue_items_def)

lemma list_key_faults [simp]: "list_key (w\<lparr>faults := fs\<rparr>) name = list_key w name"
  by (simp add: list_key_def)

lemma job_record_faults [simp]: "job_record (w\<lparr>faults := fs\<rparr>) job_id = job_record w job_id"
  by (simp add: job_record_def)

lemma update_job_status_healthy:
  "faults w = [] \<Longrightarrow>
   update_job_status job_id status progress error w =
     w\<lparr>keyspace := (keyspace w)(job_key job_id \<mapsto>
          RString (JObj (status_data status progress error)) (now w + 3600))\<rparr>"
  by (simp add: update_job_status_def setex_healthy)

lemma publish_job_result_healthy:
  "faults w = [] \<Longrightarrow> list_key w NLP_RESULTS_QUEUE \<Longrightarrow>
   publish_job_result job_id result w =
     (True, w\<lparr>keyspace := (keyspace w)(NLP_RESULTS_QUEUE \<mapsto>
          RList (JObj (result_message job_id result) # queue_items w NLP_RESULTS_QUEUE))\<rparr>)"
  by (simp add: publish_job_result_def lpush_healthy)

lemma get_processing_job_healthy:
  "faults w = [] \<Longrightarrow> queue_items w NLP_QUEUE = xs @ [x] \<Longrightarrow>
   get_processing_job w =
     (Some x, w\<lparr>keyspace := (keyspace w)(NLP_QUEUE := (if xs = [] then None else Some (RList xs)))\<rparr>)"
  by (simp add: get_processing_job_def brpop_healthy)

lemma start_processing_fields [simp]:
  "pj_id (start_processing t job) = pj_id job"
  "pj_document_id (start_processing t job) = pj_document_id job"
  "pj_metadata (start_processing t job) = pj_metadata job"
  "lacks_document (start_processing t job) = lacks_document job"
  by (simp_all add: start_processing_def lacks_document_def)

lemma process_next_job_returns:
  "\<exists>c'. fst (process_next_job process_document SPACY_MODEL c w) = Inr c'"
  by (simp add: process_next_job_def Let_def split: prod.splits option.splits sum.splits)

subsection \<open>Popping from an empty queue\<close>

lemma brpop_empty:
  assumes "queue_items w name = []"
  shows "fst (brpop name t w) = Inr None \<or> (\<exists>e. fst (brpop name t w) = Inl e)"
    and "keyspace (snd (brpop name t w)) = keyspace w"
    and "now (snd (brpop name t w)) \<le> now w + t"
  using assms
  by (auto simp: brpop_def queue_items_def dest!: next_fault_eq [where name = name]
      split: prod.splits bool.splits option.splits rval.splits)

lemma get_processing_job_empty:
  assumes "queue_items w NLP_QUEUE = []"
  shows "fst (get_processing_job w) = None"
    and "keyspace (snd (get_processing_job w)) = keyspace w"
    and "now (snd (get_processing_job w)) \<le> now w + 30"
  using brpop_empty [OF assms, of 30]
  by (auto simp: get_processing_job_def split: prod.splits sum.splits option.splits)

text \<open>
  Claim C5. A pop on an empty queue returns the value "no job" and does not raise,
  whatever the broker does (the blocking pop returns nothing after its 30 seconds, and
  an error of the call is swallowed); the worker's iteration then returns the consumer
  unchanged, the loop goes on to its next iteration, nothing stored changes, and at most
  30 seconds have passed.
\<close>

theorem pop_timeout_idle:
  assumes "queue_items w NLP_QUEUE = []"
  shows "fst (get_processing_job w) = None
       \<and> process_next_job process_document SPACY_MODEL c w = (Inr c, snd (get_processing_job w))
       \<and> (running c \<longrightarrow>
            consumer_loop (Suc n) process_document SPACY_MODEL c w =
            consumer_loop n process_document SPACY_MODEL c (snd (get_processing_job w)))
       \<and> keyspace (snd (get_processing_job w)) = keyspace w
       \<and> now (snd (get_processing_job w)) \<le> now w + 30"
proof -
  note e = get_processing_job_empty [OF assms]
  have d: "process_next_job process_document SPACY_MODEL c w = (Inr c, snd (get_processing_job w))"
    using e(1) by (cases "get_processing_job w") (simp add: process_next_job_def)
  show ?thesis using e d by simp
qed

theorem pop_timeout_idle_witness:
  "queue_items empty_world NLP_QUEUE = []
   \<and> running idle_consumer
   \<and> fst (get_processing_job empty_world) = None
   \<and> consumer_loop (Suc 0) null_analyzer default_model idle_consumer empty_world =
       (idle_consumer, empty_world\<lparr>now := 30\<rparr>)"
  using pop_timeout_idle [of empty_world null_analyzer default_model idle_consumer 0]
  by (simp add: queue_items_def live_def empty_world_def idle_consumer_def
      get_processing_job_def brpop_def next_fault_def)

subsection \<open>The status query when the broker fails\<close>

text \<open>
  Claim C9. When the broker lookup of a status query raises, the lookup of the service
  swallows the error and returns the absent value, and the endpoint answers 404 "Job not
  found", the answer it gives for a job that never existed; no 500 comes out of it.
\<close>

theorem status_lookup_error_is_not_found:
  assumes "fst (get (job_key job_id) w) = Inl e"
  shows "fst (get_job_status job_id w) = None
       \<and> fst (get_job_status_endpoint job_id w) = Inl (HTTPException 404 ''Job not found'')
       \<and> status_code (HTTPException 404 ''Job not found'') \<noteq> Some 500"
  using assms
  by (cases "get (job_key job_id) w")
     (simp add: get_job_status_def get_job_status_endpoint_def)

theorem status_lookup_error_is_not_found_witness:
  "fst (get (job_key ''j1'') (empty_world\<lparr>faults := [True]\<rparr>)) = Inl connection_error
   \<and> fst (get_job_status_endpoint ''j1'' (empty_world\<lparr>faults := [True]\<rparr>)) =
       Inl (HTTPException 404 ''Job not found'')
   \<and> fst (get_job_status_endpoint ''j1'' empty_world) =
       Inl (HTTPException 404 ''Job not found'')"
  using status_lookup_error_is_not_found
          [of "''j1''" "empty_world\<lparr>faults := [True]\<rparr>" connection_error]
  by (simp add: get_def next_fault_def empty_world_def get_job_status_endpoint_def
        get_job_status_def live_def)

subsection \<open>Clearing the queue\<close>

lemma clear_queue_ok:
  assumes "fst (clear_queue name w) = True"
  shows "keyspace (snd (clear_queue name w)) = (keyspace w)(name := None)"
    and "now (snd (clear_queue name w)) = now w"
  using assms
  by (auto simp: clear_queue_def delete_def dest!: next_fault_eq [where name = name]
      split: prod.splits bool.splits sum.splits)

lemma job_key_j1: "job_key ''j1'' \<noteq> NLP_QUEUE" "NLP_QUEUE \<noteq> job_key ''j1''"
  by (simp_all add: key_distinct)

text \<open>
  Claim C8. After a successful clear-queue the processing queue is empty: its length is 0
  and a pop finds no job. Every job key of the store, and so every status record, is as
  it was, and so is the results channel.
\<close>

theorem clear_queue_frame:
  assumes "fst (clear_processing_queue w) = Inr r"
  shows "queue_items (snd (clear_processing_queue w)) NLP_QUEUE = []
       \<and> fst (get_queue_length NLP_QUEUE (snd (clear_processing_queue w))) = 0
       \<and> fst (get_processing_job (snd (clear_processing_queue w))) = None
       \<and> (\<forall>job_id. keyspace (snd (clear_processing_queue w)) (job_key job_id)
                     = keyspace w (job_key job_id))
       \<and> (\<forall>job_id. job_record (snd (clear_processing_queue w)) job_id = job_record w job_id)
       \<and> keyspace (snd (clear_processing_queue w)) NLP_RESULTS_QUEUE = keyspace w NLP_RESULTS_QUEUE
       \<and> queue_items (snd (clear_processing_queue w)) NLP_RESULTS_QUEUE
           = queue_items w NLP_RESULTS_QUEUE"
proof -
  let ?w = "snd (clear_processing_queue w)"
  have ok: "fst (clear_queue NLP_QUEUE w) = True" and w': "?w = snd (clear_queue NLP_QUEUE w)"
    using assms
    by (cases "clear_queue NLP_QUEUE w"; cases "fst (clear_queue NLP_QUEUE w)";
        simp add: clear_processing_queue_def)+
  have ks: "keyspace ?w = (keyspace w)(NLP_QUEUE := None)" and nw: "now ?w = now w"
    using clear_queue_ok [OF ok] w' by simp_all
  have q: "queue_items ?w NLP_QUEUE = []"
    by (simp add: queue_items_def live_def ks)
  have len: "fst (get_queue_length NLP_QUEUE ?w) = 0"
    using q
    by (auto simp: get_queue_length_def llen_def queue_items_def
        dest!: next_fault_eq [where name = NLP_QUEUE]
        split: prod.splits bool.splits sum.splits option.splits rval.splits)
  have pop: "fst (get_processing_job ?w) = None"
    using get_processing_job_empty(1) [OF q] .
  have jk: "\<forall>job_id. keyspace ?w (job_key job_id) = keyspace w (job_key job_id)"
    by (simp add: ks key_distinct)
  have jr: "\<forall>job_id. job_record ?w job_id = job_record w job_id"
    by (intro allI job_record_cong) (simp_all add: ks nw key_distinct)
  have rk: "keyspace ?w NLP_RESULTS_QUEUE = keyspace w NLP_RESULTS_QUEUE"
    by (simp add: ks key_distinct)
  have rq: "queue_items ?w NLP_RESULTS_QUEUE = queue_items w NLP_RESULTS_QUEUE"
    by (rule queue_items_cong) (simp_all add: ks nw key_distinct)
  show ?thesis using q len pop jk jr rk rq by simp
qed

lemma served_world_eq:
  "served_world =
     empty_world\<lparr>keyspace := [NLP_QUEUE \<mapsto> RList [bare_job_data],
        job_key ''j1'' \<mapsto> RString (JObj (status_data ''completed'' 100 None)) 3600]\<rparr>"
  by (simp add: served_world_def world_with_def update_job_status_def setex_def next_fault_def
      empty_world_def)

theorem clear_queue_frame_witness:
  "fst (clear_processing_queue served_world) =
     Inr [(''message'', JStr ''Processing queue cleared successfully'')]
   \<and> queue_items served_world NLP_QUEUE = [bare_job_data]
   \<and> queue_items (snd (clear_processing_queue served_world)) NLP_QUEUE = []
   \<and> fst (get_processing_job (snd (clear_processing_queue served_world))) = None
   \<and> job_record (snd (clear_processing_queue served_world)) ''j1''
        = Some (JObj [(''status'', JStr ''completed''), (''progress'', JFloat 100),
                      (''updated_at'', JNull)])"
proof -
  have h: "fst (clear_processing_queue served_world) =
     Inr [(''message'', JStr ''Processing queue cleared successfully'')]"
    unfolding served_world_eq
    by (simp add: clear_processing_queue_def clear_queue_def delete_def next_fault_def
        empty_world_def)
  have q: "queue_items served_world NLP_QUEUE = [bare_job_data]"
    unfolding served_world_eq by (simp add: queue_items_def live_def empty_world_def job_key_j1)
  have r: "job_record served_world ''j1''
        = Some (JObj [(''status'', JStr ''completed''), (''progress'', JFloat 100),
                      (''updated_at'', JNull)])"
    unfolding served_world_eq
    by (simp add: job_record_def live_def empty_world_def status_data_def)
  show ?thesis
    using clear_queue_frame [OF h] h q r by simp
qed

subsection \<open>A job without a document\<close>

lemma process_job_body_lacks:
  "lacks_document job \<Longrightarrow>
   process_job_body process_document SPACY_MODEL job c w = (Inl (missing_document_error job), w)"
  by (simp add: process_job_body_def lacks_document_def missing_document_error_def
      split: option.splits)

text \<open>
  Claim C4. A popped job whose metadata carries no document is marked failed: on a
  broker that answers, the worker's iteration returns normally (no exception reaches the
  loop), the stored record of the job has status failed, progress 0 and a non-empty error
  message, a failure result for the job is put on the results channel, the job has left
  the queue, and the loop goes on with the entries that remain.
\<close>

theorem missing_document_fails_job:
  assumes healthy: "faults w = []" "list_key w NLP_RESULTS_QUEUE"
    and pop: "queue_items w NLP_QUEUE = xs @ [job_data]"
    and job: "truthy job_data" "ProcessingJob_of (now w) job_data = Inr job"
    and lacks: "lacks_document job"
  shows "fst (process_next_job process_document SPACY_MODEL c w) = Inr c
       \<and> error_msg_of (missing_document_error job) \<noteq> []
       \<and> job_record (snd (process_next_job process_document SPACY_MODEL c w)) (pj_id job) =
            Some (JObj [(''status'', JStr ''failed''), (''progress'', JFloat 0),
                        (''updated_at'', JNull),
                        (''error'', JStr (error_msg_of (missing_document_error job)))])
       \<and> queue_items (snd (process_next_job process_document SPACY_MODEL c w)) NLP_RESULTS_QUEUE =
            JObj [(''job_id'', JStr (pj_id job)),
                  (''result'', JObj [(''job_id'', JStr (pj_id job)),
                                     (''document_id'', JStr (pj_document_id job)),
                                     (''status'', JStr ''failed''),
                                     (''error'', JStr (error_msg_of (missing_document_error job))),
                                     (''processed_at'', JTime (now w))]),
                  (''timestamp'', JTime (now w))] # queue_items w NLP_RESULTS_QUEUE
       \<and> queue_items (snd (process_next_job process_document SPACY_MODEL c w)) NLP_QUEUE = xs
       \<and> (running c \<longrightarrow>
            consumer_loop (Suc n) process_document SPACY_MODEL c w =
            consumer_loop n process_document SPACY_MODEL c
              (snd (process_next_job process_document SPACY_MODEL c w)))
       \<and> (\<forall>c0 w0. \<exists>c'. fst (process_next_job process_document SPACY_MODEL c0 w0) = Inr c')"
proof -
  define e where "e = missing_document_error job"
  define w1 where "w1 = w\<lparr>keyspace := (keyspace w)(NLP_QUEUE := (if xs = [] then None else Some (RList xs)))\<rparr>"
  define job1 where "job1 = start_processing (now w) job"
  define w2 where "w2 = update_job_status (pj_id job) ''processing'' 0 None w1"
  define w' where "w' = fail_job e job1 w2"
  have m1: "pj_metadata job1 = pj_metadata job" "pj_id job1 = pj_id job"
    "pj_document_id job1 = pj_document_id job"
    by (simp_all add: job1_def)
  have run: "process_next_job process_document SPACY_MODEL c w = (Inr c, w')"
    using job lacks
    by (simp add: process_next_job_def get_processing_job_healthy [OF healthy(1) pop]
        Let_def process_job_body_lacks w'_def w2_def w1_def job1_def e_def missing_document_error_def)
  have f1: "faults w1 = []" "now w1 = now w" using healthy by (simp_all add: w1_def)
  have w2: "w2 = w1\<lparr>keyspace := (keyspace w1)(job_key (pj_id job) \<mapsto>
          RString (JObj (status_data ''processing'' 0 None)) (now w1 + 3600))\<rparr>"
    unfolding w2_def by (rule update_job_status_healthy [OF f1(1)])
  have f2: "faults w2 = []" "now w2 = now w" using f1 by (simp_all add: w2)
  define msg where "msg = error_msg_of e"
  have msg: "msg \<noteq> []" by (simp add: msg_def error_msg_of_def)
  define w3 where "w3 = update_job_status (pj_id job) ''failed'' 0 (Some msg) w2"
  have w3: "w3 = w2\<lparr>keyspace := (keyspace w2)(job_key (pj_id job) \<mapsto>
          RString (JObj (status_data ''failed'' 0 (Some msg))) (now w2 + 3600))\<rparr>"
    unfolding w3_def by (rule update_job_status_healthy [OF f2(1)])
  have f3: "faults w3 = []" "now w3 = now w" using f2 by (simp_all add: w3)
  have "list_key w3 NLP_RESULTS_QUEUE = list_key w NLP_RESULTS_QUEUE"
    by (rule list_key_cong) (simp_all add: w3 w2 w1_def key_distinct)
  then have lk3: "list_key w3 NLP_RESULTS_QUEUE" using healthy(2) by simp
  have q3: "queue_items w3 NLP_RESULTS_QUEUE = queue_items w NLP_RESULTS_QUEUE"
    by (rule queue_items_cong) (simp_all add: w3 w2 w1_def key_distinct)
  have w': "w' = w3\<lparr>keyspace := (keyspace w3)(NLP_RESULTS_QUEUE \<mapsto>
          RList (JObj (result_message (pj_id job) (failed_result job1 msg (now w)))
                 # queue_items w NLP_RESULTS_QUEUE))\<rparr>"
    using publish_job_result_healthy [OF f3(1) lk3, of "pj_id job" "failed_result job1 msg (now w)"]
    by (simp add: w'_def fail_job_def Let_def m1 fail_processing_def f2 f3 q3
        msg_def [symmetric] w3_def [symmetric] failed_result_def)
  have "job_record w' (pj_id job) = job_record w3 (pj_id job)"
    by (rule job_record_cong) (simp_all add: w' key_distinct)
  then have rec: "job_record w' (pj_id job) = Some (JObj (status_data ''failed'' 0 (Some msg)))"
    by (simp add: w3 job_record_def live_def f2)
  have res: "queue_items w' NLP_RESULTS_QUEUE =
      JObj (result_message (pj_id job) (failed_result job1 msg (now w))) # queue_items w NLP_RESULTS_QUEUE"
    by (simp add: w' queue_items_def live_def)
  have "queue_items w' NLP_QUEUE = queue_items w1 NLP_QUEUE"
    by (rule queue_items_cong) (simp_all add: w' w3 w2 f1 f2 f3 key_distinct)
  then have q: "queue_items w' NLP_QUEUE = xs"
    by (simp add: w1_def queue_items_def live_def)
  have loop: "running c \<longrightarrow>
              consumer_loop (Suc n) process_document SPACY_MODEL c w =
              consumer_loop n process_document SPACY_MODEL c w'"
    by (simp add: run)
  show ?thesis
    using msg rec res q loop process_next_job_returns [of process_document SPACY_MODEL]
    by (simp add: run status_data_def result_message_def failed_result_def dict_get_def m1
        msg_def e_def)
qed

theorem missing_document_fails_job_witness:
  "faults (world_with [bare_job_data]) = []
   \<and> queue_items (world_with [bare_job_data]) NLP_QUEUE = [] @ [bare_job_data]
   \<and> ProcessingJob_of (now (world_with [bare_job_data])) bare_job_data = Inr bare_job
   \<and> lacks_document bare_job \<and> running idle_consumer
   \<and> job_record (snd (process_next_job null_analyzer default_model idle_consumer
                        (world_with [bare_job_data]))) ''j0'' =
        Some (JObj [(''status'', JStr ''failed''), (''progress'', JFloat 0),
                    (''updated_at'', JNull),
                    (''error'', JStr ''Failed to process document: No document data in job'')])
   \<and> consumer_loop (Suc 0) null_analyzer default_model idle_consumer (world_with [bare_job_data])
       = (idle_consumer, snd (process_next_job null_analyzer default_model idle_consumer
                        (world_with [bare_job_data])))"
proof -
  have h1: "faults (world_with [bare_job_data]) = []"
    and h2: "list_key (world_with [bare_job_data]) NLP_RESULTS_QUEUE"
    and h3: "queue_items (world_with [bare_job_data]) NLP_QUEUE = [] @ [bare_job_data]"
    by (simp_all add: world_with_def empty_world_def list_key_def queue_items_def live_def
        key_distinct)
  have h4: "truthy bare_job_data" by (simp add: bare_job_data_def)
  have h5: "ProcessingJob_of (now (world_with [bare_job_data])) bare_job_data = Inr bare_job"
    by (simp add: ProcessingJob_of_def bare_job_data_def bare_job_def world_with_def
        empty_world_def req_str_def field_status_def field_time_def field_opt_time_def
        field_opt_str_def field_float_def field_opt_dict_def)
  have h6: "lacks_document bare_job"
    by (simp add: lacks_document_def bare_job_def dict_get_def)
  have r: "running idle_consumer" by (simp add: idle_consumer_def)
  show ?thesis
    using missing_document_fails_job [OF h1 h2 h3 h4 h5 h6, of null_analyzer default_model
        idle_consumer 0] h1 h3 h5 h6 r
    by (simp add: bare_job_def missing_document_error_def error_msg_of_def)
qed

subsection \<open>The job that completes\<close>

lemma update_job_status_step:
  "faults w = f # fs \<Longrightarrow>
   update_job_status job_id status progress error w =
     (if f then w\<lparr>faults := fs\<rparr>
      else w\<lparr>faults := fs, keyspace := (keyspace w)(job_key job_id \<mapsto>
             RString (JObj (status_data status progress error)) (now w + 3600))\<rparr>)"
  by (simp add: update_job_status_def setex_step)

lemma publish_job_result_step:
  "faults w = f # fs \<Longrightarrow>
   publish_job_result job_id result w =
     (if \<not> f \<and> list_key w NLP_RESULTS_QUEUE
      then (True, w\<lparr>faults := fs, keyspace := (keyspace w)(NLP_RESULTS_QUEUE \<mapsto>
              RList (JObj (result_message job_id result) # queue_items w NLP_RESULTS_QUEUE))\<rparr>)
      else (False, w\<lparr>faults := fs\<rparr>))"
  by (simp add: publish_job_result_def lpush_step)

lemma get_processing_job_step:
  "faults w = False # fs \<Longrightarrow> queue_items w NLP_QUEUE = xs @ [x] \<Longrightarrow>
   get_processing_job w =
     (Some x, w\<lparr>faults := fs,
                keyspace := (keyspace w)(NLP_QUEUE := (if xs = [] then None else Some (RList xs)))\<rparr>)"
  by (simp add: get_processing_job_def brpop_step)

lemma publish_job_result_swallows:
  "fst (lpush NLP_RESULTS_QUEUE (JObj (result_message job_id result)) w) = Inl e \<Longrightarrow>
   fst (publish_job_result job_id result w) = False"
  by (cases "lpush NLP_RESULTS_QUEUE (JObj (result_message job_id result)) w")
     (simp add: publish_job_result_def)

lemma completed_result_id [simp]:
  "completed_result (complete_processing t job) document pd u = completed_result job document pd u"
  "pj_id (complete_processing t job) = pj_id job"
  by (simp_all add: completed_result_def complete_processing_def)

lemma update_job_status_now [simp]: "now (update_job_status job_id s p e w) = now w"
  by (simp add: update_job_status_def setex_def next_fault_def split: list.splits bool.splits)

lemma process_job_body_ok:
  assumes "pj_metadata job = Some metadata" "truthy (dict_get metadata ''document'')"
    "Document_of (now w) (dict_get metadata ''document'') = Inr document"
    "process_document document = Inr analysis"
  shows "process_job_body process_document SPACY_MODEL job c w =
     (if fst (publish_job_result (pj_id job)
               (completed_result job document
                  (ProcessedDocument_dict document analysis (now w) SERVICE_VERSION SPACY_MODEL) (now w))
               (update_job_status (pj_id job) ''completed'' 100 None w))
      then Inr (c\<lparr>processed_count := processed_count c + 1\<rparr>) else Inr c,
      snd (publish_job_result (pj_id job)
               (completed_result job document
                  (ProcessedDocument_dict document analysis (now w) SERVICE_VERSION SPACY_MODEL) (now w))
               (update_job_status (pj_id job) ''completed'' 100 None w)))"
  using assms
  by (simp add: process_job_body_def Let_def split: prod.splits)

lemma process_next_job_popped:
  assumes "get_processing_job w = (Some job_data, w1)" "truthy job_data"
    "ProcessingJob_of (now w1) job_data = Inr job"
  shows "process_next_job process_document SPACY_MODEL c w =
     (case process_job_body process_document SPACY_MODEL (start_processing (now w1) job) c
             (update_job_status (pj_id job) ''processing'' 0 None w1) of
        (Inr c', w3) \<Rightarrow> (Inr c', w3)
      | (Inl e, w3) \<Rightarrow> (Inr c, fail_job e (start_processing (now w1) job) w3))"
  using assms by (simp add: process_next_job_def Let_def)

lemma JobStatus_roundtrip [simp]: "JobStatus_of_value (JobStatus_value s) = Some s"
  by (cases s) (simp_all add: JobStatus_of_value_def)

lemma ProcessingJob_roundtrip: "ProcessingJob_of t (JObj (ProcessingJob_dict job)) = Inr job"
  by (cases job)
     (simp add: ProcessingJob_of_def ProcessingJob_dict_def req_str_def field_status_def
       field_time_def field_opt_time_def field_opt_str_def field_float_def field_opt_dict_def
       opt_time_json_def opt_str_json_def opt_dict_json_def split: option.splits)

lemma Document_roundtrip: "Document_of t (JObj (Document_dict document)) = Inr document"
  by (cases document)
     (simp add: Document_of_def Document_dict_def req_str_def field_time_def field_opt_dict_def
       opt_dict_json_def split: option.splits)

lemma new_job_document:
  "pj_metadata (new_job job_id document t) = Some [(''document'', JObj (Document_dict document))]"
  "dict_get [(''document'', JObj (Document_dict document))] ''document'' = JObj (Document_dict document)"
  "truthy (JObj (Document_dict document))"
  "truthy (JObj (ProcessingJob_dict job))"
  "pj_id (new_job job_id document t) = job_id"
  "pj_document_id (new_job job_id document t) = doc_id document"
  by (simp_all add: new_job_def dict_get_def Document_dict_def ProcessingJob_dict_def)

text \<open>
  Claim C10. For a job that the analyzer handles, the status write of COMPLETED with
  progress 100 is the broker call before the publication: when the pop and that write
  succeed, the stored record is completed with progress 100 whether or not the
  publication then succeeds. A failing publication (a connection error or a results key
  of the wrong kind) makes \<open>publish_job_result\<close> return False, no exception is raised, the
  job is not marked failed, nothing is put on the results channel, and the processed
  count is incremented exactly when the publication succeeded.
\<close>

theorem completed_persisted_before_publish:
  assumes sched: "faults w = False # f2 # False # f4 # fs"
    and pop: "queue_items w NLP_QUEUE = xs @ [job_data]"
    and job: "truthy job_data" "ProcessingJob_of (now w) job_data = Inr job"
    and doc: "pj_metadata job = Some metadata" "truthy (dict_get metadata ''document'')"
             "Document_of (now w) (dict_get metadata ''document'') = Inr document"
    and ana: "process_document document = Inr analysis"
  shows "fst (process_next_job process_document SPACY_MODEL c w) =
           Inr (if \<not> f4 \<and> list_key w NLP_RESULTS_QUEUE
                then c\<lparr>processed_count := processed_count c + 1\<rparr> else c)
       \<and> job_record (snd (process_next_job process_document SPACY_MODEL c w)) (pj_id job) =
           Some (JObj [(''status'', JStr ''completed''), (''progress'', JFloat 100),
                       (''updated_at'', JNull)])
       \<and> (f4 \<longrightarrow> queue_items (snd (process_next_job process_document SPACY_MODEL c w))
                    NLP_RESULTS_QUEUE = queue_items w NLP_RESULTS_QUEUE)
       \<and> (\<forall>job_id result w0 e.
             fst (lpush NLP_RESULTS_QUEUE (JObj (result_message job_id result)) w0) = Inl e \<longrightarrow>
             fst (publish_job_result job_id result w0) = False)"
proof -
  define w1 where "w1 = w\<lparr>faults := f2 # False # f4 # fs,
      keyspace := (keyspace w)(NLP_QUEUE := (if xs = [] then None else Some (RList xs)))\<rparr>"
  define job1 where "job1 = start_processing (now w) job"
  define w2 where "w2 = update_job_status (pj_id job) ''processing'' 0 None w1"
  define w3 where "w3 = update_job_status (pj_id job) ''completed'' 100 None w2"
  define result where "result = completed_result job1 document
      (ProcessedDocument_dict document analysis (now w) SERVICE_VERSION SPACY_MODEL) (now w)"
  define r where "r = publish_job_result (pj_id job) result w3"
  have gp: "get_processing_job w = (Some job_data, w1)"
    unfolding w1_def by (rule get_processing_job_step [OF sched pop])
  have n1: "now w1 = now w" and f1: "faults w1 = f2 # False # f4 # fs"
    by (simp_all add: w1_def)
  have w2: "w2 = (if f2 then w1\<lparr>faults := False # f4 # fs\<rparr>
      else w1\<lparr>faults := False # f4 # fs, keyspace := (keyspace w1)(job_key (pj_id job) \<mapsto>
             RString (JObj (status_data ''processing'' 0 None)) (now w1 + 3600))\<rparr>)"
    unfolding w2_def by (rule update_job_status_step [OF f1])
  have n2: "now w2 = now w" and f2: "faults w2 = False # f4 # fs"
    and k2: "keyspace w2 NLP_RESULTS_QUEUE = keyspace w NLP_RESULTS_QUEUE"
    by (simp_all add: w2 w1_def key_distinct)
  have w3: "w3 = w2\<lparr>faults := f4 # fs, keyspace := (keyspace w2)(job_key (pj_id job) \<mapsto>
             RString (JObj (status_data ''completed'' 100 None)) (now w2 + 3600))\<rparr>"
    unfolding w3_def using update_job_status_step [OF f2] by simp
  have n3: "now w3 = now w" and f3: "faults w3 = f4 # fs"
    and k3: "keyspace w3 NLP_RESULTS_QUEUE = keyspace w NLP_RESULTS_QUEUE"
    by (simp_all add: w3 n2 k2 key_distinct)
  have lk3: "list_key w3 NLP_RESULTS_QUEUE = list_key w NLP_RESULTS_QUEUE"
    by (rule list_key_cong) (simp_all add: k3 n3)
  have q3: "queue_items w3 NLP_RESULTS_QUEUE = queue_items w NLP_RESULTS_QUEUE"
    by (rule queue_items_cong) (simp_all add: k3 n3)
  have r: "r = (if \<not> f4 \<and> list_key w NLP_RESULTS_QUEUE
      then (True, w3\<lparr>faults := fs, keyspace := (keyspace w3)(NLP_RESULTS_QUEUE \<mapsto>
              RList (JObj (result_message (pj_id job) result) # queue_items w NLP_RESULTS_QUEUE))\<rparr>)
      else (False, w3\<lparr>faults := fs\<rparr>))"
    unfolding r_def using publish_job_result_step [OF f3, of "pj_id job" result]
    by (simp add: lk3 q3)
  have body: "process_job_body process_document SPACY_MODEL job1 c w2 =
      (if fst r then Inr (c\<lparr>processed_count := processed_count c + 1\<rparr>) else Inr c, snd r)"
    using process_job_body_ok [of job1 metadata w2 document process_document analysis SPACY_MODEL c]
      doc ana
    by (simp add: job1_def n2 r_def result_def w3_def)
  have run: "process_next_job process_document SPACY_MODEL c w =
      (if fst r then Inr (c\<lparr>processed_count := processed_count c + 1\<rparr>) else Inr c, snd r)"
    using process_next_job_popped [OF gp job(1), of job process_document SPACY_MODEL c] job(2) body
    by (simp add: n1 job1_def w2_def)
  have a: "fst (process_next_job process_document SPACY_MODEL c w) =
           Inr (if \<not> f4 \<and> list_key w NLP_RESULTS_QUEUE
                then c\<lparr>processed_count := processed_count c + 1\<rparr> else c)"
    by (simp add: run r)
  have "job_record (snd r) (pj_id job) = job_record w3 (pj_id job)"
    by (rule job_record_cong) (simp_all add: r key_distinct)
  then have b: "job_record (snd (process_next_job process_document SPACY_MODEL c w)) (pj_id job) =
           Some (JObj [(''status'', JStr ''completed''), (''progress'', JFloat 100),
                       (''updated_at'', JNull)])"
    by (simp add: run w3 job_record_def live_def n2 status_data_def)
  have c: "f4 \<longrightarrow> queue_items (snd (process_next_job process_document SPACY_MODEL c w))
                    NLP_RESULTS_QUEUE = queue_items w NLP_RESULTS_QUEUE"
    by (simp add: run r q3)
  show ?thesis using a b c publish_job_result_swallows by blast
qed

theorem completed_persisted_before_publish_witness:
  "faults (world_with [JObj (ProcessingJob_dict (new_job ''j1'' doc1 0))]
             \<lparr>faults := [False, False, False, True]\<rparr>) = False # False # False # True # []
   \<and> fst (process_next_job null_analyzer default_model idle_consumer
            (world_with [JObj (ProcessingJob_dict (new_job ''j1'' doc1 0))]
               \<lparr>faults := [False, False, False, True]\<rparr>)) = Inr idle_consumer
   \<and> job_record (snd (process_next_job null_analyzer default_model idle_consumer
            (world_with [JObj (ProcessingJob_dict (new_job ''j1'' doc1 0))]
               \<lparr>faults := [False, False, False, True]\<rparr>))) ''j1'' =
        Some (JObj [(''status'', JStr ''completed''), (''progress'', JFloat 100),
                    (''updated_at'', JNull)])
   \<and> queue_items (snd (process_next_job null_analyzer default_model idle_consumer
            (world_with [JObj (ProcessingJob_dict (new_job ''j1'' doc1 0))]
               \<lparr>faults := [False, False, False, True]\<rparr>))) NLP_RESULTS_QUEUE = []"
proof -
  let ?w = "world_with [JObj (ProcessingJob_dict (new_job ''j1'' doc1 0))]
               \<lparr>faults := [False, False, False, True]\<rparr>"
  have h1: "faults ?w = False # False # False # True # []" by simp
  have h2: "queue_items ?w NLP_QUEUE = [] @ [JObj (ProcessingJob_dict (new_job ''j1'' doc1 0))]"
    by (simp add: world_with_def empty_world_def queue_items_def live_def)
  have h3: "truthy (JObj (ProcessingJob_dict (new_job ''j1'' doc1 0)))"
    by (rule new_job_document)
  have h4: "ProcessingJob_of (now ?w) (JObj (ProcessingJob_dict (new_job ''j1'' doc1 0)))
      = Inr (new_job ''j1'' doc1 0)"
    by (rule ProcessingJob_roundtrip)
  have h5: "pj_metadata (new_job ''j1'' doc1 0) = Some [(''document'', JObj (Document_dict doc1))]"
    by (rule new_job_document)
  have h6: "truthy (dict_get [(''document'', JObj (Document_dict doc1))] ''document'')"
    by (simp add: dict_get_def Document_dict_def)
  have h7: "Document_of (now ?w) (dict_get [(''document'', JObj (Document_dict doc1))] ''document'')
      = Inr doc1"
    by (simp add: new_job_document Document_roundtrip)
  have h8: "null_analyzer doc1 = Inr []" by (simp add: null_analyzer_def)
  have q: "queue_items ?w NLP_RESULTS_QUEUE = []"
    by (simp add: world_with_def empty_world_def queue_items_def live_def key_distinct)
  show ?thesis
    using completed_persisted_before_publish
            [where process_document = null_analyzer and document = doc1,
             OF h1 h2 h3 h4 h5 h6 h7 h8, of default_model idle_consumer] q
    by (simp add: new_job_document)
qed

subsection \<open>The published result\<close>

lemma process_next_job_completes:
  assumes healthy: "faults w = []" "list_key w NLP_RESULTS_QUEUE"
    and pop: "queue_items w NLP_QUEUE = xs @ [job_data]"
    and job: "truthy job_data" "ProcessingJob_of (now w) job_data = Inr job"
    and doc: "pj_metadata job = Some metadata" "truthy (dict_get metadata ''document'')"
             "Document_of (now w) (dict_get metadata ''document'') = Inr document"
    and ana: "process_document document = Inr analysis"
  shows "fst (process_next_job process_document SPACY_MODEL c w) =
           Inr (c\<lparr>processed_count := processed_count c + 1\<rparr>)"
    and "queue_items (snd (process_next_job process_document SPACY_MODEL c w)) NLP_RESULTS_QUEUE =
           JObj (result_message (pj_id job)
                  (completed_result job document
                     (ProcessedDocument_dict document analysis (now w) SERVICE_VERSION SPACY_MODEL)
                     (now w)))
           # queue_items w NLP_RESULTS_QUEUE"
    and "queue_items (snd (process_next_job process_document SPACY_MODEL c w)) NLP_QUEUE = xs"
    and "job_record (snd (process_next_job process_document SPACY_MODEL c w)) (pj_id job) =
           Some (JObj (status_data ''completed'' 100 None))"
proof -
  define w1 where "w1 = w\<lparr>keyspace := (keyspace w)(NLP_QUEUE := (if xs = [] then None else Some (RList xs)))\<rparr>"
  define job1 where "job1 = start_processing (now w) job"
  define w2 where "w2 = update_job_status (pj_id job) ''processing'' 0 None w1"
  define w3 where "w3 = update_job_status (pj_id job) ''completed'' 100 None w2"
  define result where "result = completed_result job1 document
      (ProcessedDocument_dict document analysis (now w) SERVICE_VERSION SPACY_MODEL) (now w)"
  define r where "r = publish_job_result (pj_id job) result w3"
  have res: "result = completed_result job document
      (ProcessedDocument_dict document analysis (now w) SERVICE_VERSION SPACY_MODEL) (now w)"
    by (simp add: result_def job1_def completed_result_def)
  have gp: "get_processing_job w = (Some job_data, w1)"
    unfolding w1_def by (rule get_processing_job_healthy [OF healthy(1) pop])
  have n1: "now w1 = now w" and f1: "faults w1 = []"
    using healthy by (simp_all add: w1_def)
  have w2: "w2 = w1\<lparr>keyspace := (keyspace w1)(job_key (pj_id job) \<mapsto>
             RString (JObj (status_data ''processing'' 0 None)) (now w1 + 3600))\<rparr>"
    unfolding w2_def by (rule update_job_status_healthy [OF f1])
  have n2: "now w2 = now w" and f2: "faults w2 = []" using f1 n1 by (simp_all add: w2)
  have w3: "w3 = w2\<lparr>keyspace := (keyspace w2)(job_key (pj_id job) \<mapsto>
             RString (JObj (status_data ''completed'' 100 None)) (now w2 + 3600))\<rparr>"
    unfolding w3_def by (rule update_job_status_healthy [OF f2])
  have n3: "now w3 = now w" and f3: "faults w3 = []" using f2 n2 by (simp_all add: w3)
  have k3: "keyspace w3 NLP_RESULTS_QUEUE = keyspace w NLP_RESULTS_QUEUE"
    by (simp add: w3 w2 w1_def key_distinct)
  have lk3: "list_key w3 NLP_RESULTS_QUEUE"
    using list_key_cong [OF k3 n3] healthy(2) by simp
  have q3: "queue_items w3 NLP_RESULTS_QUEUE = queue_items w NLP_RESULTS_QUEUE"
    by (rule queue_items_cong [OF k3 n3])
  have r: "r = (True, w3\<lparr>keyspace := (keyspace w3)(NLP_RESULTS_QUEUE \<mapsto>
              RList (JObj (result_message (pj_id job) result) # queue_items w NLP_RESULTS_QUEUE))\<rparr>)"
    unfolding r_def using publish_job_result_healthy [OF f3 lk3, of "pj_id job" result]
    by (simp add: q3)
  have body: "process_job_body process_document SPACY_MODEL job1 c w2 =
      (if fst r then Inr (c\<lparr>processed_count := processed_count c + 1\<rparr>) else Inr c, snd r)"
    using process_job_body_ok [of job1 metadata w2 document process_document analysis SPACY_MODEL c]
      doc ana
    by (simp add: job1_def n2 r_def result_def w3_def)
  have run: "process_next_job process_document SPACY_MODEL c w =
      (if fst r then Inr (c\<lparr>processed_count := processed_count c + 1\<rparr>) else Inr c, snd r)"
    using process_next_job_popped [OF gp job(1), of job process_document SPACY_MODEL c] job(2) body
    by (simp add: n1 job1_def w2_def)
  show "fst (process_next_job process_document SPACY_MODEL c w) =
           Inr (c\<lparr>processed_count := processed_count c + 1\<rparr>)"
    by (simp add: run r)
  show "queue_items (snd (process_next_job process_document SPACY_MODEL c w)) NLP_RESULTS_QUEUE =
           JObj (result_message (pj_id job)
                  (completed_result job document
                     (ProcessedDocument_dict document analysis (now w) SERVICE_VERSION SPACY_MODEL)
                     (now w)))
           # queue_items w NLP_RESULTS_QUEUE"
    by (simp add: run r queue_items_def res)
  have "queue_items (snd r) NLP_QUEUE = queue_items w1 NLP_QUEUE"
    by (rule queue_items_cong) (simp_all add: r w3 w2 n1 n2 n3 key_distinct)
  then show "queue_items (snd (process_next_job process_document SPACY_MODEL c w)) NLP_QUEUE = xs"
    by (simp add: run w1_def queue_items_def live_def)
  have "job_record (snd r) (pj_id job) = job_record w3 (pj_id job)"
    by (rule job_record_cong) (simp_all add: r key_distinct)
  then show "job_record (snd (process_next_job process_document SPACY_MODEL c w)) (pj_id job) =
           Some (JObj (status_data ''completed'' 100 None))"
    by (simp add: run w3 job_record_def live_def n2)
qed

lemma job1_world_facts:
  "faults job1_world = []"
  "list_key job1_world NLP_RESULTS_QUEUE"
  "queue_items job1_world NLP_QUEUE = [] @ [JObj (ProcessingJob_dict job1)]"
  "queue_items job1_world NLP_RESULTS_QUEUE = []"
  "now job1_world = 0"
  by (simp_all add: job1_world_def world_with_def empty_world_def list_key_def queue_items_def
      live_def key_distinct)

lemma job1_facts:
  "truthy (JObj (ProcessingJob_dict job1))"
  "ProcessingJob_of (now job1_world) (JObj (ProcessingJob_dict job1)) = Inr job1"
  "pj_metadata job1 = Some [(''document'', JObj (Document_dict doc1))]"
  "truthy (dict_get [(''document'', JObj (Document_dict doc1))] ''document'')"
  "Document_of (now job1_world) (dict_get [(''document'', JObj (Document_dict doc1))] ''document'')
     = Inr doc1"
  "null_analyzer doc1 = Inr []"
  "pj_id job1 = ''j1''"
  by (simp_all add: ProcessingJob_roundtrip job1_def new_job_document Document_roundtrip
      null_analyzer_def)
     (simp_all add: ProcessingJob_dict_def Document_dict_def)

text \<open>
  The message on the results channel is not the envelope itself: for the job j1 it is the
  dictionary that \<open>publish_job_result\<close> builds around the envelope.
\<close>

theorem published_message_wraps_result_counterexample:
  "queue_items (snd (process_next_job null_analyzer default_model idle_consumer job1_world))
     NLP_RESULTS_QUEUE = [JObj (result_message ''j1'' envelope1)]
   \<and> JObj (result_message ''j1'' envelope1) \<noteq> JObj envelope1"
proof -
  have "queue_items (snd (process_next_job null_analyzer default_model idle_consumer job1_world))
     NLP_RESULTS_QUEUE = [JObj (result_message ''j1'' envelope1)]"
    using process_next_job_completes(2)
          [where process_document = null_analyzer and document = doc1,
           OF job1_world_facts(1,2,3) job1_facts(1,2,3,4,5,6), of default_model idle_consumer]
    by (simp add: job1_world_facts job1_facts envelope1_def)
  moreover have "JObj (result_message ''j1'' envelope1) \<noteq> JObj envelope1"
    by (simp add: result_message_def envelope1_def completed_result_def)
  ultimately show ?thesis by simp
qed

text \<open>
  Claim C6, as the code has it. For a job that the worker completes on a broker whose
  calls succeed, the message put at the head of the results channel, a broker list other
  than the work queue, is the dictionary with the keys job\_id, result and timestamp:
  its result is the envelope with job\_id, document\_id, processed\_document, status
  "completed" and processed\_at, and its timestamp is the envelope's processed\_at.
\<close>

theorem completed_result_message:
  assumes healthy: "faults w = []" "list_key w NLP_RESULTS_QUEUE"
    and pop: "queue_items w NLP_QUEUE = xs @ [job_data]"
    and job: "truthy job_data" "ProcessingJob_of (now w) job_data = Inr job"
    and doc: "pj_metadata job = Some metadata" "truthy (dict_get metadata ''document'')"
             "Document_of (now w) (dict_get metadata ''document'') = Inr document"
    and ana: "process_document document = Inr analysis"
  shows "queue_items (snd (process_next_job process_document SPACY_MODEL c w)) NLP_RESULTS_QUEUE =
           JObj [(''job_id'', JStr (pj_id job)),
                 (''result'',
                    JObj [(''job_id'', JStr (pj_id job)),
                          (''document_id'', JStr (doc_id document)),
                          (''processed_document'',
                             JObj (ProcessedDocument_dict document analysis (now w)
                                     SERVICE_VERSION SPACY_MODEL)),
                          (''status'', JStr ''completed''),
                          (''processed_at'', JTime (now w))]),
                 (''timestamp'', JTime (now w))]
           # queue_items w NLP_RESULTS_QUEUE
       \<and> NLP_RESULTS_QUEUE \<noteq> NLP_QUEUE
       \<and> queue_items (snd (process_next_job process_document SPACY_MODEL c w)) NLP_QUEUE = xs"
  using process_next_job_completes(2,3)
          [where process_document = process_document and document = document, OF assms,
           of SPACY_MODEL c]
  by (simp add: result_message_def completed_result_def dict_get_def key_distinct)

theorem completed_result_message_witness:
  "faults job1_world = [] \<and> list_key job1_world NLP_RESULTS_QUEUE
   \<and> queue_items job1_world NLP_QUEUE = [] @ [JObj (ProcessingJob_dict job1)]
   \<and> queue_items (snd (process_next_job null_analyzer default_model idle_consumer job1_world))
        NLP_RESULTS_QUEUE =
        [JObj [(''job_id'', JStr ''j1''), (''result'', JObj envelope1), (''timestamp'', JTime 0)]]
   \<and> queue_items (snd (process_next_job null_analyzer default_model idle_consumer job1_world))
        NLP_QUEUE = []"
  using completed_result_message
          [where process_document = null_analyzer and document = doc1,
           OF job1_world_facts(1,2,3) job1_facts(1,2,3,4,5,6), of default_model idle_consumer]
  by (simp add: job1_world_facts job1_facts envelope1_def completed_result_def doc1_def)

subsection \<open>The order of the queue\<close>

lemma lpush_healthy_facts:
  assumes "faults w = []" "list_key w name"
  shows "faults (snd (lpush name v w)) = []"
    and "now (snd (lpush name v w)) = now w"
    and "list_key (snd (lpush name v w)) name"
    and "queue_items (snd (lpush name v w)) name = v # queue_items w name"
  using assms
  by (simp_all add: lpush_healthy list_key_def queue_items_def)

lemma push_all_healthy:
  assumes "faults w = []" "list_key w NLP_QUEUE"
  shows "faults (push_all vs w) = [] \<and> now (push_all vs w) = now w
       \<and> list_key (push_all vs w) NLP_QUEUE
       \<and> queue_items (push_all vs w) NLP_QUEUE = rev vs @ queue_items w NLP_QUEUE"
  using assms
proof (induction vs arbitrary: w)
  case Nil
  then show ?case by simp
next
  case (Cons v vs)
  note f = lpush_healthy_facts [OF Cons.prems, of v]
  from Cons.IH [OF f(1) f(3)] show ?case
    by (simp add: f)
qed

lemma pop_after_pushes:
  assumes "faults w = []" "list_key w NLP_QUEUE" "queue_items w NLP_QUEUE = []"
  shows "fst (get_processing_job (push_all (v # rest) w)) = Some v"
proof -
  note h = push_all_healthy [OF assms(1,2), of "v # rest"]
  have f: "faults (push_all (v # rest) w) = []"
    using h by blast
  have q: "queue_items (push_all (v # rest) w) NLP_QUEUE = rev rest @ [v]"
    using h assms(3) by (simp del: push_all.simps)
  show ?thesis
    by (simp only: get_processing_job_healthy [OF f q] fst_conv)
qed

lemma empty_world_facts:
  "faults empty_world = []" "list_key empty_world NLP_QUEUE"
  "queue_items empty_world NLP_QUEUE = []" "now empty_world = 0"
  "job_record empty_world job_id = None"
  by (simp_all add: empty_world_def list_key_def queue_items_def job_record_def live_def)

lemma submit_job_raises:
  "submit_job job_id document w =
     (Inl (HTTPException 500 (''Job submission failed: '' @ str_exn data_error)), w)"
  by (simp add: submit_job_def Let_def)

lemma submit_all_unchanged: "submit_all subs w = w"
  by (induction subs arbitrary: w) (auto simp: submit_job_raises)

text \<open>
  After the entries of j1 and then j2 have been pushed onto an empty queue, the next pop
  returns the entry of j1 and not that of j2, the more recent one. And after the
  submissions of j1 and j2 themselves the pop returns no job at all, neither that of j2
  nor another: the push of a submission raises, see \<open>submit_job_raises\<close>.
\<close>

theorem queue_is_lifo_counterexample:
  "fst (get_processing_job (push_all [entry1, entry2] empty_world)) = Some entry1
   \<and> entry1 \<noteq> entry2
   \<and> fst (get_processing_job (submit_all [(''j1'', doc1), (''j2'', doc2)] empty_world)) = None"
proof -
  have "fst (get_processing_job (push_all [entry1, entry2] empty_world)) = Some entry1"
    by (rule pop_after_pushes [OF empty_world_facts(1,2,3)])
  moreover have "entry1 \<noteq> entry2"
    by (simp add: entry1_def entry2_def ProcessingJob_dict_def new_job_def)
  moreover have "fst (get_processing_job (submit_all [(''j1'', doc1), (''j2'', doc2)] empty_world))
      = None"
    unfolding submit_all_unchanged
    by (rule get_processing_job_empty(1) [OF empty_world_facts(3)])
  ultimately show ?thesis by simp
qed

text \<open>
  Claim C1, as the code has it. The push that the submission issues is LPUSH, which
  inserts at the head of the broker list, and the worker's pop is BRPOP, which removes at
  its tail, the opposite end, so the queue is first in, first out: on a broker whose
  calls succeed, a sequence of entries pushed with no pop in between lies on the list
  newest first, and when the queue was empty before, the next pop returns the entry that
  was pushed first.
\<close>

theorem queue_is_fifo:
  assumes "faults w = []" "list_key w NLP_QUEUE"
  shows "queue_items (push_all vs w) NLP_QUEUE = rev vs @ queue_items w NLP_QUEUE
       \<and> (queue_items w NLP_QUEUE = [] \<longrightarrow>
            fst (get_processing_job (push_all (v # rest) w)) = Some v)"
  using push_all_healthy [OF assms, of vs] pop_after_pushes [OF assms, of v rest]
  by simp

theorem queue_is_fifo_witness:
  "faults empty_world = [] \<and> list_key empty_world NLP_QUEUE
   \<and> queue_items empty_world NLP_QUEUE = []
   \<and> queue_items (push_all [entry1, entry2] empty_world) NLP_QUEUE = [entry2, entry1]
   \<and> fst (get_processing_job (push_all [entry1, entry2] empty_world)) = Some entry1"
  using queue_is_fifo [OF empty_world_facts(1,2), of "[entry1, entry2]" entry1 "[entry2]"]
  by (simp add: empty_world_facts)

subsection \<open>A submission that fails\<close>

text \<open>
  Claim C3. A submission whose push onto the queue raises answers with a 500 error, and
  nothing stored has changed: the key space is as before, so there is no job record for
  the job and no new entry on the queue. In the code as it is, the push of every
  submission raises, since the client refuses the dictionary it is given, and the
  submission then leaves the broker exactly as it was.
\<close>

theorem submit_failure_leaves_no_state:
  "(fst (redis_client_lpush NLP_QUEUE
           (PyDict (ProcessingJob_dict (new_job job_id document (now w)))) w) = Inl e \<longrightarrow>
      fst (submit_job job_id document w) =
        Inl (HTTPException 500 (''Job submission failed: '' @ str_exn e))
      \<and> status_code (HTTPException 500 (''Job submission failed: '' @ str_exn e)) = Some 500
      \<and> keyspace (snd (submit_job job_id document w)) = keyspace w
      \<and> job_record (snd (submit_job job_id document w)) job_id = job_record w job_id
      \<and> queue_items (snd (submit_job job_id document w)) NLP_QUEUE = queue_items w NLP_QUEUE)
   \<and> fst (redis_client_lpush NLP_QUEUE
           (PyDict (ProcessingJob_dict (new_job job_id document (now w)))) w) = Inl data_error
   \<and> snd (submit_job job_id document w) = w"
  by (simp add: submit_job_raises)

theorem submit_failure_leaves_no_state_witness:
  "fst (redis_client_lpush NLP_QUEUE
          (PyDict (ProcessingJob_dict (new_job ''j1'' doc1 (now empty_world)))) empty_world)
     = Inl data_error
   \<and> fst (submit_job ''j1'' doc1 empty_world) =
        Inl (HTTPException 500 (''Job submission failed: '' @ str_exn data_error))
   \<and> job_record (snd (submit_job ''j1'' doc1 empty_world)) ''j1'' = None
   \<and> queue_items (snd (submit_job ''j1'' doc1 empty_world)) NLP_QUEUE = []"
  using submit_failure_leaves_no_state [of "''j1''" doc1 empty_world data_error]
  by (simp add: empty_world_facts)

subsection \<open>The status query\<close>

lemma get_frame:
  "keyspace (snd (get name w)) = keyspace w \<and> now (snd (get name w)) = now w"
  by (auto simp: get_def dest!: next_fault_eq [where name = name]
      split: prod.splits bool.splits option.splits rval.splits)

lemma get_job_status_frame:
  "keyspace (snd (get_job_status job_id w)) = keyspace w
   \<and> now (snd (get_job_status job_id w)) = now w"
  using get_frame [of "job_key job_id" w]
  by (cases "get (job_key job_id) w")
     (auto simp: get_job_status_def split: sum.splits option.splits)

lemma get_job_status_endpoint_frame:
  "keyspace (snd (get_job_status_endpoint job_id w)) = keyspace w
   \<and> now (snd (get_job_status_endpoint job_id w)) = now w"
  using get_job_status_frame [of job_id w]
  by (cases "get_job_status job_id w")
     (auto simp: get_job_status_endpoint_def split: option.splits json.splits)

lemma get_job_status_healthy:
  "faults w = [] \<Longrightarrow> get_job_status job_id w = (job_record w job_id, w)"
  by (simp add: get_job_status_def get_def next_fault_nil job_record_def
      split: option.splits rval.splits)

lemma get_job_status_endpoint_healthy:
  "faults w = [] \<Longrightarrow> snd (get_job_status_endpoint job_id w) = w"
  by (simp add: get_job_status_endpoint_def get_job_status_healthy
      split: option.splits json.splits)

lemma get_job_status_absent:
  assumes "live w (job_key job_id) = None"
  shows "fst (get_job_status job_id w) = None"
  using assms
  by (auto simp: get_job_status_def get_def dest!: next_fault_eq [where name = "job_key job_id"]
      split: prod.splits bool.splits option.splits rval.splits sum.splits)

lemma endpoint_not_found:
  "fst (get_job_status job_id w) = None \<Longrightarrow>
   fst (get_job_status_endpoint job_id w) = Inl (HTTPException 404 ''Job not found'')"
  by (cases "get_job_status job_id w") (simp add: get_job_status_endpoint_def)

lemma dict_merge_status_data:
  "dict_merge [(''job_id'', x)] (status_data status progress error) =
     (''job_id'', x) # status_data status progress error"
  by (simp add: status_data_def Let_def split: option.splits)

lemma status_data_truthy: "status_data status progress error \<noteq> []"
  by (simp add: status_data_def Let_def split: option.splits)

lemma processing_world_facts:
  "faults (update_job_status ''j1'' ''processing'' 0 None empty_world) = []"
  "job_record (update_job_status ''j1'' ''processing'' 0 None empty_world) ''j1'' =
     Some (JObj (status_data ''processing'' 0 None))"
  "keyspace (update_job_status ''j1'' ''processing'' 0 None empty_world) (job_key ''j2'') = None"
  by (simp_all add: update_job_status_healthy [OF empty_world_facts(1)] empty_world_facts)
     (simp_all add: empty_world_def job_record_def live_def job_key_def)

text \<open>
  Claim C7. The status query changes nothing: the key space and the clock are as before,
  so on a broker whose calls succeed a second query of the same job gives the same
  answer as the first. When a record is stored for the job, the lookup returns it as it
  is stored and the endpoint answers with its fields, the job id in front; when the key
  never existed or its time to live has run out (one hour after the last status write),
  the lookup returns nothing and the endpoint answers 404 "Job not found".
\<close>

theorem status_query_read_only:
  "keyspace (snd (get_job_status_endpoint job_id w)) = keyspace w
   \<and> now (snd (get_job_status_endpoint job_id w)) = now w
   \<and> (faults w = [] \<longrightarrow>
        get_job_status_endpoint job_id (snd (get_job_status_endpoint job_id w)) =
        get_job_status_endpoint job_id w)
   \<and> (faults w = [] \<and> job_record w job_id = Some (JObj d) \<and> d \<noteq> [] \<longrightarrow>
        fst (get_job_status job_id w) = Some (JObj d)
        \<and> fst (get_job_status_endpoint job_id w) = Inr (dict_merge [(''job_id'', JStr job_id)] d))
   \<and> (faults w = [] \<and> job_record w job_id = Some (JObj (status_data status progress error)) \<longrightarrow>
        fst (get_job_status_endpoint job_id w) =
          Inr ((''job_id'', JStr job_id) # status_data status progress error))
   \<and> (keyspace w (job_key job_id) = None
        \<or> (\<exists>v t. keyspace w (job_key job_id) = Some (RString v t) \<and> t \<le> now w) \<longrightarrow>
        fst (get_job_status job_id w) = None
        \<and> fst (get_job_status_endpoint job_id w) = Inl (HTTPException 404 ''Job not found''))
   \<and> (faults w = [] \<and> 3600 \<le> dt \<longrightarrow>
        fst (get_job_status_endpoint job_id
               ((update_job_status job_id status progress error w)\<lparr>now := now w + dt\<rparr>)) =
          Inl (HTTPException 404 ''Job not found''))"
proof -
  have a: "faults w = [] \<longrightarrow>
        get_job_status_endpoint job_id (snd (get_job_status_endpoint job_id w)) =
        get_job_status_endpoint job_id w"
    by (simp add: get_job_status_endpoint_healthy)
  have b: "faults w = [] \<and> job_record w job_id = Some (JObj d) \<and> d \<noteq> [] \<longrightarrow>
        fst (get_job_status job_id w) = Some (JObj d)
        \<and> fst (get_job_status_endpoint job_id w) = Inr (dict_merge [(''job_id'', JStr job_id)] d)"
    by (simp add: get_job_status_endpoint_def get_job_status_healthy)
  have c: "faults w = [] \<and> job_record w job_id = Some (JObj (status_data status progress error)) \<longrightarrow>
        fst (get_job_status_endpoint job_id w) =
          Inr ((''job_id'', JStr job_id) # status_data status progress error)"
    by (simp add: get_job_status_endpoint_def get_job_status_healthy dict_merge_status_data
        status_data_truthy)
  have d: "keyspace w (job_key job_id) = None
        \<or> (\<exists>v t. keyspace w (job_key job_id) = Some (RString v t) \<and> t \<le> now w) \<longrightarrow>
        fst (get_job_status job_id w) = None
        \<and> fst (get_job_status_endpoint job_id w) = Inl (HTTPException 404 ''Job not found'')"
  proof
    assume "keyspace w (job_key job_id) = None
        \<or> (\<exists>v t. keyspace w (job_key job_id) = Some (RString v t) \<and> t \<le> now w)"
    then have "live w (job_key job_id) = None" by (auto simp: live_def)
    then have "fst (get_job_status job_id w) = None" by (rule get_job_status_absent)
    then show "fst (get_job_status job_id w) = None
        \<and> fst (get_job_status_endpoint job_id w) = Inl (HTTPException 404 ''Job not found'')"
      by (simp add: endpoint_not_found)
  qed
  have e: "faults w = [] \<and> 3600 \<le> dt \<longrightarrow>
        fst (get_job_status_endpoint job_id
               ((update_job_status job_id status progress error w)\<lparr>now := now w + dt\<rparr>)) =
          Inl (HTTPException 404 ''Job not found'')"
  proof
    assume h: "faults w = [] \<and> 3600 \<le> dt"
    then have "live ((update_job_status job_id status progress error w)\<lparr>now := now w + dt\<rparr>)
        (job_key job_id) = None"
      by (simp add: update_job_status_healthy live_def)
    then show "fst (get_job_status_endpoint job_id
               ((update_job_status job_id status progress error w)\<lparr>now := now w + dt\<rparr>)) =
          Inl (HTTPException 404 ''Job not found'')"
      by (intro endpoint_not_found get_job_status_absent)
  qed
  show ?thesis
    using get_job_status_endpoint_frame [of job_id w] a b c d e by blast
qed

theorem status_query_read_only_witness:
  "faults (update_job_status ''j1'' ''processing'' 0 None empty_world) = []
   \<and> job_record (update_job_status ''j1'' ''processing'' 0 None empty_world) ''j1'' =
        Some (JObj (status_data ''processing'' 0 None))
   \<and> fst (get_job_status_endpoint ''j1'' (update_job_status ''j1'' ''processing'' 0 None empty_world)) =
        Inr [(''job_id'', JStr ''j1''), (''status'', JStr ''processing''),
             (''progress'', JFloat 0), (''updated_at'', JNull)]
   \<and> get_job_status_endpoint ''j1''
        (snd (get_job_status_endpoint ''j1''
               (update_job_status ''j1'' ''processing'' 0 None empty_world))) =
      get_job_status_endpoint ''j1'' (update_job_status ''j1'' ''processing'' 0 None empty_world)
   \<and> keyspace (update_job_status ''j1'' ''processing'' 0 None empty_world) (job_key ''j2'') = None
   \<and> fst (get_job_status_endpoint ''j2'' (update_job_status ''j1'' ''processing'' 0 None empty_world)) =
        Inl (HTTPException 404 ''Job not found'')
   \<and> faults empty_world = [] \<and> (3600::nat) \<le> 3600
   \<and> fst (get_job_status_endpoint ''j1''
             ((update_job_status ''j1'' ''processing'' 0 None empty_world)
                \<lparr>now := now empty_world + 3600\<rparr>)) =
        Inl (HTTPException 404 ''Job not found'')"
  using status_query_read_only
          [of "''j1''" "update_job_status ''j1'' ''processing'' 0 None empty_world"
              "status_data ''processing'' 0 None" "''processing''" 0 None 3600]
        status_query_read_only
          [of "''j2''" "update_job_status ''j1'' ''processing'' 0 None empty_world" "[]"
              "''processing''" 0 None 3600]
        status_query_read_only
          [of "''j1''" empty_world "[]" "''processing''" 0 None 3600]
        processing_world_facts empty_world_facts(1)
  by (simp add: status_data_def)

subsection \<open>The invariant of the stored records\<close>

lemma written_ok_refl: "written_ok w w"
  by (simp add: written_ok_def)

lemma written_ok_trans: "written_ok w w' \<Longrightarrow> written_ok w' w'' \<Longrightarrow> written_ok w w''"
  unfolding written_ok_def by metis

lemma written_ok_frame:
  "(\<And>job_id. keyspace w' (job_key job_id) = keyspace w (job_key job_id)) \<Longrightarrow> written_ok w w'"
  by (simp add: written_ok_def)

lemma store_ok_preserved: "store_ok w \<Longrightarrow> written_ok w w' \<Longrightarrow> store_ok w'"
  unfolding store_ok_def written_ok_def by (metis option.inject rval.inject(1))

lemma record_ok_status_data:
  "record_ok (JObj (status_data ''pending'' 0 None))"
  "record_ok (JObj (status_data ''processing'' 0 None))"
  "record_ok (JObj (status_data ''completed'' 100 None))"
  "record_ok (JObj (status_data ''failed'' 0 (Some (error_msg_of e))))"
  by (simp_all add: status_data_def error_msg_of_def)

lemma update_job_status_written:
  assumes "record_ok (JObj (status_data status progress error))"
  shows "written_ok w (update_job_status job_id status progress error w)"
  using assms
  by (auto simp: written_ok_def update_job_status_def setex_def next_fault_def
      split: list.splits bool.splits)

lemma lpush_frame:
  "k \<noteq> name \<Longrightarrow> keyspace (snd (lpush name v w)) k = keyspace w k"
  by (auto simp: lpush_def dest!: next_fault_eq [where name = name]
      split: prod.splits bool.splits option.splits rval.splits)

lemma brpop_frame:
  "k \<noteq> name \<Longrightarrow> keyspace (snd (brpop name t w)) k = keyspace w k"
  by (auto simp: brpop_def dest!: next_fault_eq [where name = name]
      split: prod.splits bool.splits option.splits rval.splits)

lemma publish_job_result_written: "written_ok w (snd (publish_job_result job_id result w))"
proof (rule written_ok_frame)
  fix j
  show "keyspace (snd (publish_job_result job_id result w)) (job_key j) = keyspace w (job_key j)"
    using lpush_frame [of "job_key j" NLP_RESULTS_QUEUE "JObj (result_message job_id result)" w]
    by (cases "lpush NLP_RESULTS_QUEUE (JObj (result_message job_id result)) w")
       (auto simp: publish_job_result_def key_distinct split: sum.splits)
qed

lemma get_processing_job_written: "written_ok w (snd (get_processing_job w))"
proof (rule written_ok_frame)
  fix j
  show "keyspace (snd (get_processing_job w)) (job_key j) = keyspace w (job_key j)"
    using brpop_frame [of "job_key j" NLP_QUEUE 30 w]
    by (cases "brpop NLP_QUEUE 30 w")
       (auto simp: get_processing_job_def key_distinct split: sum.splits option.splits)
qed

lemma process_job_body_written:
  "written_ok w (snd (process_job_body process_document SPACY_MODEL job c w))"
proof -
  have ok: "written_ok w (snd (publish_job_result i r (update_job_status i ''completed'' 100 None w)))"
    for i r
    by (rule written_ok_trans [OF update_job_status_written publish_job_result_written])
       (rule record_ok_status_data)
  show ?thesis
    by (auto simp: process_job_body_def Let_def written_ok_refl ok
        split: option.splits sum.splits prod.splits)
       (metis ok snd_conv)+
qed

lemma fail_job_written: "written_ok w (fail_job e job w)"
  unfolding fail_job_def Let_def
  by (rule written_ok_trans [OF update_job_status_written publish_job_result_written])
     (simp only: JobStatus_value.simps record_ok_status_data)

lemma process_next_job_written:
  "written_ok w (snd (process_next_job process_document SPACY_MODEL c w))"
proof (cases "get_processing_job w")
  case (Pair job_data w1)
  have w1: "written_ok w w1" using get_processing_job_written [of w] Pair by simp
  show ?thesis
  proof (cases job_data)
    case None
    then show ?thesis using Pair w1 by (simp add: process_next_job_def)
  next
    case (Some jd)
    show ?thesis
    proof (cases "truthy jd")
      case False
      then show ?thesis using Pair Some w1 by (simp add: process_next_job_def)
    next
      case True
      show ?thesis
      proof (cases "ProcessingJob_of (now w1) jd")
        case (Inl e)
        then show ?thesis using Pair Some True w1 by (simp add: process_next_job_def)
      next
        case (Inr job)
        define w2 where "w2 = update_job_status (pj_id job) ''processing'' 0 None w1"
        define b where "b = process_job_body process_document SPACY_MODEL
            (start_processing (now w1) job) c w2"
        have w2: "written_ok w w2"
          unfolding w2_def
          by (rule written_ok_trans [OF w1 update_job_status_written])
             (rule record_ok_status_data)
        have w3: "written_ok w (snd b)"
          unfolding b_def by (rule written_ok_trans [OF w2 process_job_body_written])
        have w4: "written_ok w (fail_job e (start_processing (now w1) job) (snd b))" for e
          by (rule written_ok_trans [OF w3 fail_job_written])
        have "process_next_job process_document SPACY_MODEL c w =
            (case b of (Inr c', w3) \<Rightarrow> (Inr c', w3)
             | (Inl e, w3) \<Rightarrow> (Inr c, fail_job e (start_processing (now w1) job) w3))"
          using process_next_job_popped [OF Pair [unfolded Some] True Inr]
          by (simp add: b_def w2_def)
        then show ?thesis
          using w3 w4 by (cases b) (auto split: sum.splits)
      qed
    qed
  qed
qed

lemma submit_job_written: "written_ok w (snd (submit_job job_id document w))"
proof (cases "redis_client_lpush NLP_QUEUE
                (PyDict (ProcessingJob_dict (new_job job_id document (now w)))) w")
  case (Pair r w1)
  have "keyspace w1 (job_key j) = keyspace w (job_key j)" for j
    using Pair by simp
  then have w1: "written_ok w w1" by (rule written_ok_frame)
  have w2: "written_ok w (update_job_status job_id ''pending'' 0 None w1)"
    by (rule written_ok_trans [OF w1 update_job_status_written])
       (rule record_ok_status_data)
  show ?thesis
    using Pair w1 w2 by (cases r) (simp_all add: submit_job_def Let_def)
qed

lemma store_ok_initial:
  "store_ok empty_world" "store_ok job1_world" "store_ok (world_with [bare_job_data])"
  by (simp_all add: store_ok_def empty_world_def job1_world_def world_with_def key_distinct)

text \<open>
  Claim C2. Every status record that a submission or an iteration of the worker writes
  satisfies the invariant: its progress is 100 exactly when its status is completed, and
  it has an error message exactly when its status is failed. Whatever the broker does,
  each job key whose content has changed holds such a record, so a store whose records
  all satisfy the invariant still does after either operation.
\<close>

theorem stored_record_invariant:
  "written_ok w (snd (submit_job job_id document w))
   \<and> written_ok w (snd (process_next_job process_document SPACY_MODEL c w))
   \<and> (store_ok w \<longrightarrow>
        store_ok (snd (submit_job job_id document w))
        \<and> store_ok (snd (process_next_job process_document SPACY_MODEL c w)))"
  using submit_job_written process_next_job_written store_ok_preserved by blast

theorem stored_record_invariant_witness:
  "store_ok empty_world
   \<and> store_ok (snd (submit_job ''j1'' doc1 empty_world))
   \<and> store_ok job1_world
   \<and> store_ok (snd (process_next_job null_analyzer default_model idle_consumer job1_world))
   \<and> job_record (snd (process_next_job null_analyzer default_model idle_consumer job1_world)) ''j1'' =
        Some (JObj [(''status'', JStr ''completed''), (''progress'', JFloat 100),
                    (''updated_at'', JNull)])
   \<and> store_ok (world_with [bare_job_data])
   \<and> store_ok (snd (process_next_job null_analyzer default_model idle_consumer
                       (world_with [bare_job_data])))"
  using stored_record_invariant [of empty_world "''j1''" doc1 null_analyzer default_model idle_consumer]
        stored_record_invariant [of job1_world "''j1''" doc1 null_analyzer default_model idle_consumer]
        stored_record_invariant [of "world_with [bare_job_data]" "''j1''" doc1 null_analyzer
            default_model idle_consumer]
        store_ok_initial
        process_next_job_completes(4)
          [where process_document = null_analyzer and document = doc1,
           OF job1_world_facts(1,2,3) job1_facts(1,2,3,4,5,6), of default_model idle_consumer]
  by (simp add: status_data_def job1_facts)

end
